theory Spec2Isabelle
  imports Main
begin

section \<open>Webhook dispatch (pages/record.py)\<close>

subsection \<open>Exceptions, dictionary values and messages\<close>

text \<open>
  The exceptions that can travel through \<open>send_to_webhook\<close>. \<open>SSLError\<close> is a subclass of
  \<open>ConnectionError\<close> in the requests library; \<open>RequestException\<close> stands for every other
  exception of the transport (invalid schema, too many redirects, ...), with its class name.
  \<open>PayloadTooLargeError\<close> carries the size and the unit of its message.
  \<open>DataSourceError\<close> is the failure of the spreadsheet source, used by the project page.
\<close>

datatype exn =
    KeyError string
  | AttributeError string
  | TypeError string
  | UnboundLocalError string
  | RateLimitError string
  | ValidationError "string list"
  | PayloadTooLargeError nat string
  | Timeout
  | ConnectionError string
  | SSLError string
  | RequestException string
  | DataSourceError string
  | IndexError string

fun is_Timeout :: "exn \<Rightarrow> bool" where
  "is_Timeout Timeout = True"
| "is_Timeout _ = False"

fun is_ConnectionError :: "exn \<Rightarrow> bool" where
  "is_ConnectionError (ConnectionError _) = True"
| "is_ConnectionError (SSLError _) = True"
| "is_ConnectionError _ = False"

fun exception_type :: "exn \<Rightarrow> string" where
  "exception_type (KeyError _) = ''KeyError''"
| "exception_type (AttributeError _) = ''AttributeError''"
| "exception_type (TypeError _) = ''TypeError''"
| "exception_type (UnboundLocalError _) = ''UnboundLocalError''"
| "exception_type (RateLimitError _) = ''RateLimitError''"
| "exception_type (ValidationError _) = ''ValidationError''"
| "exception_type (PayloadTooLargeError _ _) = ''PayloadTooLargeError''"
| "exception_type Timeout = ''Timeout''"
| "exception_type (ConnectionError _) = ''ConnectionError''"
| "exception_type (SSLError _) = ''SSLError''"
| "exception_type (RequestException c) = c"
| "exception_type (DataSourceError _) = ''DataSourceError''"
| "exception_type (IndexError _) = ''IndexError''"

text \<open>The values stored in the dictionaries of the response history.\<close>

datatype pyval = PyNone | PyStr string | PyInt int | PyBool bool | PyList "string list" | PyExn exn

text \<open>
  A history entry is a Python dict with string keys: an association list, read with
  \<open>map_of\<close> as \<open>response.get(key)\<close> reads it.
\<close>

type_synonym entry = "(string \<times> pyval) list"

text \<open>
  The message of the returned triple. The source builds display strings (with pictographs)
  from the arguments kept here; one constructor for each f-string of the source.
\<close>

datatype message =
    Successfully_sent string
  | Rate_limited_by_server
  | Server_error int
  | Request_error int string
  | Unexpected_response int
  | Validation_failed "string list"
  | Payload_too_large nat string
  | Rate_limit_refused string
  | Request_timed_out
  | Could_not_connect
  | Multi_validation_failed "string list"
  | Invalid_webhook_type string
  | Error_sending string exn

subsection \<open>Session state and the collaborators\<close>

record stats =
  sent :: nat
  success :: nat
  errors :: nat

text \<open>
  What the outside world sees of a call, oldest first: the gates evaluated, the requests
  posted (URL and attempt index) and the pauses between attempts.
\<close>

datatype event =
    Rate_check string string
  | Validate
  | Sanitize
  | Size_check
  | Post string nat
  | Sleep nat

text \<open>
  The keys of \<open>st.session_state\<close> that dispatch reads and writes, and the trace of
  external calls made so far.
\<close>

record state =
  selected_webhook_type :: string
  webhook_urls :: "string \<rightharpoonup> string"
  user_name :: "string option"
  webhook_responses :: "entry list"
  webhook_stats :: "string \<rightharpoonup> stats"
  trace :: "event list"

text \<open>
  The collaborators of a dispatch: the rate limiter and the validator of
  \<open>validation_utils\<close> (the source only holds their fallbacks), the JSON encoder
  (\<open>json.dumps\<close> raises on a value it cannot encode; otherwise the size in bytes),
  the transport (\<open>requests.post\<close>, by URL, body and attempt index) and the clock.
  \<open>error_list\<close> is what a handler reads back from \<open>ValidationError(errors)\<close>:
  \<open>e.errors\<close> when the class has it, else \<open>[str(e)]\<close>.
\<close>

datatype post_result = Response int string | Raises exn

record 'p env =
  check_rate_limit :: "string \<Rightarrow> string \<Rightarrow> bool \<times> string"
  validate_webhook_payload :: "'p \<Rightarrow> bool \<times> string list"
  sanitize_payload :: "'p \<Rightarrow> 'p"
  json_dumps_size :: "'p \<Rightarrow> exn + nat"
  requests_post :: "string \<Rightarrow> 'p \<Rightarrow> nat \<Rightarrow> post_result"
  now_isoformat :: string
  error_list :: "string list \<Rightarrow> string list"

text \<open>The fallback collaborators the source defines when \<open>validation_utils\<close> is missing.\<close>

definition fallback_validate :: "'p \<Rightarrow> bool \<times> string list" where
  "fallback_validate payload = (True, [])"

definition fallback_sanitize :: "'p \<Rightarrow> 'p" where
  "fallback_sanitize payload = payload"

definition fallback_check_rate_limit :: "string \<Rightarrow> string \<Rightarrow> bool \<times> string" where
  "fallback_check_rate_limit user_id webhook_type = (True, ''OK'')"

text \<open>The keys of \<open>CONTENT_TYPES\<close> (and of \<open>WEBHOOK_URLS\<close>).\<close>

definition CONTENT_TYPES :: "string list" where
  "CONTENT_TYPES = [''audio'', ''books'', ''lectures'', ''podcasts'', ''notes'',
     ''documents'', ''videos'', ''images'', ''research'', ''meetings'']"

definition log_event :: "event \<Rightarrow> state \<Rightarrow> state" where
  "log_event ev st = st\<lparr>trace := trace st @ [ev]\<rparr>"

text \<open>\<open>webhook_stats[webhook_type][counter] += 1\<close>: a missing key raises KeyError.\<close>

definition bump :: "(stats \<Rightarrow> stats) \<Rightarrow> string \<Rightarrow> state \<Rightarrow> exn + state" where
  "bump f webhook_type st =
     (case webhook_stats st webhook_type of
        None \<Rightarrow> Inl (KeyError webhook_type)
      | Some s \<Rightarrow> Inr (st\<lparr>webhook_stats := (webhook_stats st)(webhook_type \<mapsto> f s)\<rparr>))"

definition inc_sent :: "stats \<Rightarrow> stats" where
  "inc_sent s = s\<lparr>sent := sent s + 1\<rparr>"

definition inc_success :: "stats \<Rightarrow> stats" where
  "inc_success s = s\<lparr>success := success s + 1\<rparr>"

definition inc_errors :: "stats \<Rightarrow> stats" where
  "inc_errors s = s\<lparr>errors := errors s + 1\<rparr>"

subsection \<open>The retry loop\<close>

text \<open>
  \<open>for attempt in range(max_retries)\<close>: the loop runs over the list of attempt indices.
  A response leaves the loop (\<open>break\<close>); a timeout or a connection error is raised again
  on the last attempt and slept on otherwise; any other exception leaves the loop at once.
  On an empty range \<open>response\<close> is never bound.
\<close>

fun send_attempts ::
  "'p env \<Rightarrow> string \<Rightarrow> 'p \<Rightarrow> nat \<Rightarrow> nat \<Rightarrow> nat list \<Rightarrow> event list
     \<Rightarrow> (exn + (int \<times> string \<times> nat)) \<times> event list" where
  "send_attempts env url payload max_retries retry_delay [] tr =
     (Inl (UnboundLocalError ''response''), tr)"
| "send_attempts env url payload max_retries retry_delay (attempt # rest) tr =
     (case requests_post env url payload attempt of
        Response status_code body \<Rightarrow> (Inr (status_code, body, attempt), tr @ [Post url attempt])
      | Raises e \<Rightarrow>
          if is_Timeout e \<or> is_ConnectionError e then
            (if attempt = max_retries - 1 then (Inl e, tr @ [Post url attempt])
             else send_attempts env url payload max_retries retry_delay rest
                    (tr @ [Post url attempt, Sleep (retry_delay * (attempt + 1))]))
          else (Inl e, tr @ [Post url attempt]))"

subsection \<open>send_to_webhook\<close>

definition response_data :: "'p env \<Rightarrow> string \<Rightarrow> string \<Rightarrow> int \<Rightarrow> string \<Rightarrow> nat \<Rightarrow> nat \<Rightarrow> entry" where
  "response_data env webhook_type url status_code body payload_size attempt =
     [(''timestamp'', PyStr (now_isoformat env)),
      (''webhook_type'', PyStr webhook_type),
      (''status_code'', PyInt status_code),
      (''success'', PyBool (status_code = 200)),
      (''payload_size'', PyInt (int payload_size)),
      (''response_text'', if body = [] then PyNone else PyStr (take 500 body)),
      (''url'', PyStr url),
      (''attempt_count'', PyInt (int (attempt + 1))),
      (''validation_passed'', PyBool True)]"

text \<open>
  The code after the loop: the response is stored at the head of the history, the history
  is cut to 20 entries, and the counters and the triple follow the status code.
\<close>

definition after_response ::
  "'p env \<Rightarrow> state \<Rightarrow> string \<Rightarrow> string \<Rightarrow> int \<Rightarrow> string \<Rightarrow> nat \<Rightarrow> nat
     \<Rightarrow> (exn + (bool \<times> message \<times> entry)) \<times> state" where
  "after_response env st webhook_type url status_code body payload_size attempt =
     (let rd = response_data env webhook_type url status_code body payload_size attempt;
          st1 = st\<lparr>webhook_responses := take 20 (rd # webhook_responses st)\<rparr>
      in if status_code = 200 then
           (case bump inc_success webhook_type st1 of
              Inl e \<Rightarrow> (Inl e, st1)
            | Inr st2 \<Rightarrow>
                if webhook_type \<in> set CONTENT_TYPES
                then (Inr (True, Successfully_sent webhook_type, rd), st2)
                else (Inl (KeyError webhook_type), st2))
         else
           (case bump inc_errors webhook_type st1 of
              Inl e \<Rightarrow> (Inl e, st1)
            | Inr st2 \<Rightarrow>
                (Inr (False,
                      (if status_code = 429 then Rate_limited_by_server
                       else if status_code \<ge> 500 then Server_error status_code
                       else if status_code \<ge> 400 then Request_error status_code (take 100 body)
                       else Unexpected_response status_code),
                      rd), st2)))"

text \<open>\<open>st.session_state.get('user_name', 'anonymous')\<close>\<close>

definition user_id_of :: "state \<Rightarrow> string" where
  "user_id_of st = (case user_name st of None \<Rightarrow> ''anonymous'' | Some u \<Rightarrow> u)"

text \<open>
  \<open>format_file_size\<close>: the index of the unit is \<open>floor(log(size_bytes, 1024))\<close>, and
  \<open>size_names\<close> has four entries, so a size of 1024 to the 4th or more raises IndexError.
  The number shown is the size divided by the unit and rounded to two decimals; the
  result is kept here as the size and the name of the unit.
\<close>

definition size_names :: "string list" where
  "size_names = [''B'', ''KB'', ''MB'', ''GB'']"

function unit_index :: "nat \<Rightarrow> nat" where
  "unit_index n = (if n < 1024 then 0 else Suc (unit_index (n div 1024)))"
  by pat_completeness auto
termination
  by (relation "measure (\<lambda>n. n)") auto

declare unit_index.simps [simp del]

definition format_file_size :: "nat \<Rightarrow> exn + (nat \<times> string)" where
  "format_file_size size_bytes =
     (if size_bytes = 0 then Inr (0, ''B'')
      else if unit_index size_bytes < length size_names
      then Inr (size_bytes, size_names ! unit_index size_bytes)
      else Inl (IndexError ''list index out of range''))"

text \<open>
  The body of the \<open>try\<close> block: rate check, validation, sanitising, size check, the
  \<open>sent\<close> counter, the retry loop, then the response. An exception leaves with the
  state reached so far. The message of PayloadTooLargeError is built with
  \<open>format_file_size\<close>, which can raise by itself.
\<close>

definition try_body ::
  "'p env \<Rightarrow> state \<Rightarrow> 'p \<Rightarrow> string \<Rightarrow> string \<Rightarrow> (exn + (bool \<times> message \<times> entry)) \<times> state" where
  "try_body env st payload webhook_type url =
     (let user_id = user_id_of st;
          st1 = log_event (Rate_check user_id webhook_type) st
      in if \<not> fst (check_rate_limit env user_id webhook_type)
         then (Inl (RateLimitError (snd (check_rate_limit env user_id webhook_type))), st1)
         else
           let st2 = log_event Validate st1
           in if \<not> fst (validate_webhook_payload env payload)
              then (Inl (ValidationError (snd (validate_webhook_payload env payload))), st2)
              else
                let st3 = log_event Sanitize st2;
                    payload' = sanitize_payload env payload;
                    st4 = log_event Size_check st3
                in case json_dumps_size env payload' of
                     Inl e \<Rightarrow> (Inl e, st4)
                   | Inr payload_size \<Rightarrow>
                       if payload_size > 10 * 1024 * 1024
                       then
                         (case format_file_size payload_size of
                            Inl e \<Rightarrow> (Inl e, st4)
                          | Inr (shown, unit_name) \<Rightarrow>
                              (Inl (PayloadTooLargeError payload_size unit_name), st4))
                       else
                         (case bump inc_sent webhook_type st4 of
                            Inl e \<Rightarrow> (Inl e, st4)
                          | Inr st5 \<Rightarrow>
                              (case send_attempts env url payload' 3 1 [0..<3] (trace st5) of
                                 (Inl e, tr) \<Rightarrow> (Inl e, st5\<lparr>trace := tr\<rparr>)
                               | (Inr (status_code, body, attempt), tr) \<Rightarrow>
                                   after_response env (st5\<lparr>trace := tr\<rparr>) webhook_type url
                                     status_code body payload_size attempt)))"

text \<open>
  What every reachable \<open>except\<close> clause does: the error entry goes to the head of the
  history (the history is not cut here), the \<open>errors\<close> counter is incremented, and the
  failure triple is returned.
\<close>

definition record_error ::
  "state \<Rightarrow> string \<Rightarrow> entry \<Rightarrow> message \<Rightarrow> (exn + (bool \<times> message \<times> entry)) \<times> state" where
  "record_error st webhook_type error_data msg =
     (let st1 = st\<lparr>webhook_responses := error_data # webhook_responses st\<rparr>
      in case bump inc_errors webhook_type st1 of
           Inl e \<Rightarrow> (Inl e, st1)
         | Inr st2 \<Rightarrow> (Inr (False, msg, error_data), st2))"

definition error_base :: "'p env \<Rightarrow> string \<Rightarrow> string \<Rightarrow> string \<Rightarrow> entry" where
  "error_base env label webhook_type url =
     [(''error'', PyStr label),
      (''timestamp'', PyStr (now_isoformat env)),
      (''webhook_type'', PyStr webhook_type),
      (''url'', PyStr url)]"

text \<open>
  The \<open>except\<close> clauses in the order of the source: ValidationError, PayloadTooLargeError,
  RateLimitError, Timeout, ConnectionError (which also takes its subclass SSLError, so the
  SSLError clause after it is never entered), then \<open>json.JSONEncodeError\<close>. The module
  \<open>json\<close> has no such attribute: for an exception that none of the earlier clauses
  matched, evaluating this clause raises AttributeError, which leaves the function; the
  final \<open>except Exception\<close> is never reached.
\<close>

fun handlers ::
  "'p env \<Rightarrow> state \<Rightarrow> string \<Rightarrow> string \<Rightarrow> exn \<Rightarrow> (exn + (bool \<times> message \<times> entry)) \<times> state" where
  "handlers env st webhook_type url (ValidationError errs) =
     record_error st webhook_type
       (error_base env ''Validation failed'' webhook_type url @
          [(''validation_errors'', PyList (error_list env errs)),
           (''validation_passed'', PyBool False)])
       (Validation_failed errs)"
| "handlers env st webhook_type url (PayloadTooLargeError payload_size unit_name) =
     record_error st webhook_type
       (error_base env ''Payload too large'' webhook_type url @
          [(''payload_size'', PyInt (int payload_size))])
       (Payload_too_large payload_size unit_name)"
| "handlers env st webhook_type url (RateLimitError rate_msg) =
     record_error st webhook_type
       (error_base env ''Rate limit exceeded'' webhook_type url)
       (Rate_limit_refused rate_msg)"
| "handlers env st webhook_type url Timeout =
     record_error st webhook_type
       (error_base env ''Request timeout'' webhook_type url @
          [(''timeout_duration'', PyInt 30)])
       Request_timed_out"
| "handlers env st webhook_type url (ConnectionError m) =
     record_error st webhook_type
       (error_base env ''Connection error'' webhook_type url @
          [(''connection_error'', PyExn (ConnectionError m))])
       Could_not_connect"
| "handlers env st webhook_type url (SSLError m) =
     record_error st webhook_type
       (error_base env ''Connection error'' webhook_type url @
          [(''connection_error'', PyExn (SSLError m))])
       Could_not_connect"
| "handlers env st webhook_type url e =
     (Inl (AttributeError ''JSONEncodeError''), st)"

text \<open>
  \<open>webhook_type or st.session_state.selected_webhook_type\<close>: None and the empty string
  both fall back to the selected type.
\<close>

definition webhook_type_or_selected :: "state \<Rightarrow> string option \<Rightarrow> string" where
  "webhook_type_or_selected st webhook_type_arg =
     (case webhook_type_arg of
        None \<Rightarrow> selected_webhook_type st
      | Some w \<Rightarrow> if w = [] then selected_webhook_type st else w)"

text \<open>
  The URL lookup is outside the \<open>try\<close>: a type with no configured URL raises KeyError
  to the caller.
\<close>

definition send_to_webhook ::
  "'p env \<Rightarrow> state \<Rightarrow> 'p \<Rightarrow> string option \<Rightarrow> (exn + (bool \<times> message \<times> entry)) \<times> state" where
  "send_to_webhook env st payload webhook_type_arg =
     (let webhook_type = webhook_type_or_selected st webhook_type_arg
      in case webhook_urls st webhook_type of
           None \<Rightarrow> (Inl (KeyError webhook_type), st)
         | Some url \<Rightarrow>
             (case try_body env st payload webhook_type url of
                (Inr r, st') \<Rightarrow> (Inr r, st')
              | (Inl e, st') \<Rightarrow> handlers env st' webhook_type url e))"

subsection \<open>send_to_multiple_webhooks\<close>

text \<open>
  The loop over the requested types: an unknown type is recorded as a failure and skipped;
  otherwise the payload is dispatched, and an exception that leaves \<open>send_to_webhook\<close> is
  caught here and recorded as that endpoint's failure. The results are a dict keyed by type.
\<close>

type_synonym results = "string \<rightharpoonup> (bool \<times> message \<times> entry)"

definition send_one ::
  "'p env \<Rightarrow> state \<Rightarrow> 'p \<Rightarrow> string \<Rightarrow> (bool \<times> message \<times> entry) \<times> state" where
  "send_one env st payload webhook_type =
     (if webhook_type \<notin> set CONTENT_TYPES
      then ((False, Invalid_webhook_type webhook_type,
             [(''error'', PyStr ''Invalid webhook type'')]), st)
      else case send_to_webhook env st payload (Some webhook_type) of
             (Inr r, st') \<Rightarrow> (r, st')
           | (Inl e, st') \<Rightarrow>
               ((False, Error_sending webhook_type e,
                 [(''error'', PyExn e), (''exception_type'', PyStr (exception_type e))]), st'))"

fun send_each :: "'p env \<Rightarrow> 'p \<Rightarrow> string list \<Rightarrow> results \<Rightarrow> state \<Rightarrow> results \<times> state" where
  "send_each env payload [] results st = (results, st)"
| "send_each env payload (webhook_type # rest) results st =
     (case send_one env st payload webhook_type of
        (r, st') \<Rightarrow> send_each env payload rest (results(webhook_type \<mapsto> r)) st')"

text \<open>
  An empty list of types returns the dict \<open>{'error': 'No webhook types specified'}\<close>. The
  payload is validated before the loop; an invalid payload gives every requested type the
  same failure and nothing is dispatched.
\<close>

datatype multi_result = No_webhook_types | Results results

definition send_to_multiple_webhooks ::
  "'p env \<Rightarrow> state \<Rightarrow> 'p \<Rightarrow> string list \<Rightarrow> multi_result \<times> state" where
  "send_to_multiple_webhooks env st payload webhook_types =
     (if webhook_types = [] then (No_webhook_types, st)
      else
        let st1 = log_event Validate st
        in if \<not> fst (validate_webhook_payload env payload)
           then
             (Results (map_of (map (\<lambda>webhook_type.
                 (webhook_type,
                  (False, Multi_validation_failed (take 3 (snd (validate_webhook_payload env payload))),
                   [(''validation_errors'', PyList (snd (validate_webhook_payload env payload)))])))
                 webhook_types)), st1)
           else
             (case send_each env payload webhook_types Map.empty st1 of
                (results, st2) \<Rightarrow> (Results results, st2)))"

subsection \<open>Initial session and test collaborators\<close>

definition WEBHOOK_URLS :: "(string \<times> string) list" where
  "WEBHOOK_URLS =
     [(''audio'', ''https://agentonline-u29564.vm.elestio.app/webhook-test/audio-files''),
      (''books'', ''https://agentonline-u29564.vm.elestio.app/webhook-test/books-content''),
      (''lectures'', ''https://agentonline-u29564.vm.elestio.app/webhook-test/lectures-education''),
      (''podcasts'', ''https://agentonline-u29564.vm.elestio.app/webhook-test/podcasts-episodes''),
      (''notes'', ''https://agentonline-u29564.vm.elestio.app/webhook-test/notes-thoughts''),
      (''documents'', ''https://agentonline-u29564.vm.elestio.app/webhook-test/documents-files''),
      (''videos'', ''https://agentonline-u29564.vm.elestio.app/webhook-test/videos-content''),
      (''images'', ''https://agentonline-u29564.vm.elestio.app/webhook-test/images-photos''),
      (''research'', ''https://agentonline-u29564.vm.elestio.app/webhook-test/research-data''),
      (''meetings'', ''https://agentonline-u29564.vm.elestio.app/webhook-test/meetings-records'')]"

text \<open>The session that \<open>initialize_session_state\<close> leaves on a fresh start.\<close>

definition initialize_session_state :: state where
  "initialize_session_state =
     \<lparr>selected_webhook_type = ''audio'',
      webhook_urls = map_of WEBHOOK_URLS,
      user_name = Some ''Multi-Webhook User'',
      webhook_responses = [],
      webhook_stats = map_of (map (\<lambda>(webhook_type, url).
                         (webhook_type, \<lparr>sent = 0, success = 0, errors = 0\<rparr>)) WEBHOOK_URLS),
      trace = []\<rparr>"

text \<open>
  The collaborators of the source when \<open>validation_utils\<close> is missing, over a given
  transport. The payload is its JSON text, so its encoded size is its length.
\<close>

definition fallback_env :: "(string \<Rightarrow> nat \<Rightarrow> post_result) \<Rightarrow> string env" where
  "fallback_env transport =
     \<lparr>check_rate_limit = fallback_check_rate_limit,
      validate_webhook_payload = fallback_validate,
      sanitize_payload = fallback_sanitize,
      json_dumps_size = (\<lambda>payload. Inr (length payload)),
      requests_post = (\<lambda>url payload. transport url),
      now_isoformat = ''2024-01-01T00:00:00'',
      error_list = (\<lambda>errs. errs)\<rparr>"

text \<open>A sequence of dispatches on one session, each with its own collaborators.\<close>

fun dispatch_all :: "state \<Rightarrow> ('p env \<times> 'p \<times> string option) list \<Rightarrow> state" where
  "dispatch_all st [] = st"
| "dispatch_all st ((env, payload, webhook_type) # calls) =
     dispatch_all (snd (send_to_webhook env st payload webhook_type)) calls"

subsection \<open>Notions used in the statements\<close>

text \<open>The events a call has added to the trace.\<close>

definition new_events :: "state \<Rightarrow> state \<Rightarrow> event list" where
  "new_events st st' = drop (length (trace st)) (trace st')"

fun is_Post :: "event \<Rightarrow> bool" where
  "is_Post (Post _ _) = True"
| "is_Post _ = False"

fun is_Validate :: "event \<Rightarrow> bool" where
  "is_Validate Validate = True"
| "is_Validate _ = False"

fun is_network :: "event \<Rightarrow> bool" where
  "is_network (Post _ _) = True"
| "is_network (Sleep _) = True"
| "is_network _ = False"

text \<open>The outcomes of a send that the loop retries: a timeout or a connection error.\<close>

definition transport_failure :: "post_result \<Rightarrow> bool" where
  "transport_failure r =
     (case r of Raises e \<Rightarrow> is_Timeout e \<or> is_ConnectionError e | Response _ _ \<Rightarrow> False)"

text \<open>The state after the four gates have been evaluated.\<close>

definition passed_gates :: "state \<Rightarrow> string \<Rightarrow> state" where
  "passed_gates st wt =
     log_event Size_check (log_event Sanitize (log_event Validate
       (log_event (Rate_check (user_id_of st) wt) st)))"

text \<open>
  The gates in the order the source evaluates them, up to and including the first one that
  fails: rate check, validation, then sanitising and the size check.
\<close>

definition gate_events :: "'p env \<Rightarrow> state \<Rightarrow> 'p \<Rightarrow> string \<Rightarrow> event list" where
  "gate_events env st payload webhook_type =
     (if \<not> fst (check_rate_limit env (user_id_of st) webhook_type)
      then [Rate_check (user_id_of st) webhook_type]
      else if \<not> fst (validate_webhook_payload env payload)
      then [Rate_check (user_id_of st) webhook_type, Validate]
      else [Rate_check (user_id_of st) webhook_type, Validate, Sanitize, Size_check])"

definition gates_pass :: "'p env \<Rightarrow> state \<Rightarrow> 'p \<Rightarrow> string \<Rightarrow> bool" where
  "gates_pass env st payload webhook_type =
     (fst (check_rate_limit env (user_id_of st) webhook_type) \<and>
      fst (validate_webhook_payload env payload) \<and>
      (case json_dumps_size env (sanitize_payload env payload) of
         Inl e \<Rightarrow> False
       | Inr payload_size \<Rightarrow> payload_size \<le> 10 * 1024 * 1024))"

text \<open>The \<open>error\<close> label of the entry that the first failing gate leaves in the history.\<close>

definition failed_gate_label :: "'p env \<Rightarrow> state \<Rightarrow> 'p \<Rightarrow> string \<Rightarrow> string" where
  "failed_gate_label env st payload webhook_type =
     (if \<not> fst (check_rate_limit env (user_id_of st) webhook_type) then ''Rate limit exceeded''
      else if \<not> fst (validate_webhook_payload env payload) then ''Validation failed''
      else ''Payload too large'')"

text \<open>Collaborators that refuse: a limiter that is exhausted, a validator that rejects.\<close>

definition refusing_check_rate_limit :: "string \<Rightarrow> string \<Rightarrow> bool \<times> string" where
  "refusing_check_rate_limit user_id webhook_type = (False, ''Rate limit exceeded for user'')"

definition rejecting_validate :: "'p \<Rightarrow> bool \<times> string list" where
  "rejecting_validate payload = (False, [''Missing required field: content''])"

text \<open>Transports: always timing out; timing out once and then answering 503.\<close>

definition timeout_transport :: "string \<Rightarrow> nat \<Rightarrow> post_result" where
  "timeout_transport url attempt = Raises Timeout"

definition flaky_transport :: "string \<Rightarrow> nat \<Rightarrow> post_result" where
  "flaky_transport url attempt =
     (if attempt < 1 then Raises Timeout else Response 503 ''Service Unavailable'')"

text \<open>The fallback collaborators with an exhausted limiter.\<close>

definition refusing_env :: "string env" where
  "refusing_env = (fallback_env timeout_transport)\<lparr>check_rate_limit := refusing_check_rate_limit\<rparr>"

text \<open>The fallback collaborators with an exhausted limiter and a rejecting validator.\<close>

definition refusing_rejecting_env :: "string env" where
  "refusing_rejecting_env =
     (fallback_env timeout_transport)
       \<lparr>check_rate_limit := refusing_check_rate_limit,
        validate_webhook_payload := rejecting_validate\<rparr>"

text \<open>A payload holding a value that json.dumps cannot encode.\<close>

definition unencodable_env :: "string env" where
  "unencodable_env =
     (fallback_env timeout_transport)
       \<lparr>json_dumps_size := (\<lambda>payload. Inl (TypeError ''Object of type bytes is not JSON serializable''))\<rparr>"

text \<open>A dispatch to the audio endpoint while it is unreachable: every attempt times out.\<close>

definition unreachable_call :: "string env \<times> string \<times> string option" where
  "unreachable_call = (fallback_env timeout_transport, ''{}'', Some ''audio'')"

text \<open>
  Two sessions have the same configuration when they agree on the configured URLs, on the
  user name and on the endpoints that have a stats entry.
\<close>

definition same_config :: "state \<Rightarrow> state \<Rightarrow> bool" where
  "same_config st st' =
     (webhook_urls st' = webhook_urls st \<and> user_name st' = user_name st \<and>
      dom (webhook_stats st') = dom (webhook_stats st))"

text \<open>A transport on which the audio endpoint refuses connections and every other answers 200.\<close>

definition split_transport :: "string \<Rightarrow> nat \<Rightarrow> post_result" where
  "split_transport url attempt =
     (if url = ''https://agentonline-u29564.vm.elestio.app/webhook-test/audio-files''
      then Raises (ConnectionError ''Connection refused'')
      else Response 200 ''OK'')"

section \<open>Project page (pages/10_Project_Management.py)\<close>

subsection \<open>Tables\<close>

text \<open>
  A cell of a table or a value of the form: text, a number (in hundredths, the step of
  the number inputs), or a \<open>datetime.date\<close> (year, month, day) as \<open>st.date_input\<close> returns.
\<close>

datatype cell = Text string | Number int | Date nat nat nat

record dataframe =
  columns :: "string list"
  rows :: "cell list list"

text \<open>\<open>df.empty\<close>: an axis of length 0.\<close>

definition df_empty :: "dataframe \<Rightarrow> bool" where
  "df_empty df = (columns df = [] \<or> rows df = [])"

subsection \<open>The sheets manager\<close>

text \<open>
  A cache entry is keyed by the source identifier and the optional worksheet name, and
  holds the table and the time it was fetched at. Times are in microseconds.
\<close>

type_synonym key = "string \<times> string option"

record sheet_cache =
  entries :: "key \<rightharpoonup> (dataframe \<times> int)"
  remote :: "key \<rightharpoonup> dataframe"
  fetches :: nat

text \<open>
  Modelled from the spec: the class behind \<open>get_sheets_manager\<close> (utils/gsheet_manager.py)
  is not among the sources. The spec's SheetCache: TTL 300 seconds; an entry is fresh while
  \<open>now - fetched_at < TTL\<close>. \<open>remote\<close> is the remote source (no table under a key: the
  source fails there) and \<open>fetches\<close> counts the remote reads.
\<close>

definition TTL :: int where
  "TTL = 300 * 1000000"

definition fresh :: "sheet_cache \<Rightarrow> key \<Rightarrow> int \<Rightarrow> bool" where
  "fresh c k now =
     (case entries c k of None \<Rightarrow> False | Some (tbl, fetched_at) \<Rightarrow> now - fetched_at < TTL)"

definition is_space :: "char \<Rightarrow> bool" where
  "is_space ch = (ch = CHR '' '' \<or> ch = CHR 0x09 \<or> ch = CHR 0x0A \<or> ch = CHR 0x0D)"

definition strip :: "string \<Rightarrow> string" where
  "strip s = rev (dropWhile is_space (rev (dropWhile is_space s)))"

definition normalize_headers :: "dataframe \<Rightarrow> dataframe" where
  "normalize_headers df = df\<lparr>columns := map strip (columns df)\<rparr>"

text \<open>
  Modelled from the spec: \<open>get\<close> (\<open>get_sheet_data\<close>). With \<open>use_cache\<close> and a fresh entry
  the entry is returned. Otherwise the table is fetched from the remote source, its
  headers are trimmed, and it is stored as the new entry of the key; a failing fetch
  raises \<open>DataSourceError\<close>.
\<close>

definition get_sheet_data ::
  "sheet_cache \<Rightarrow> string \<Rightarrow> string option \<Rightarrow> bool \<Rightarrow> int \<Rightarrow> (exn + dataframe) \<times> sheet_cache" where
  "get_sheet_data c sheet_id worksheet_name use_cache now =
     (case (if use_cache \<and> fresh c (sheet_id, worksheet_name) now
            then entries c (sheet_id, worksheet_name) else None) of
        Some (tbl, fetched_at) \<Rightarrow> (Inr tbl, c)
      | None \<Rightarrow>
          (case remote c (sheet_id, worksheet_name) of
             None \<Rightarrow> (Inl (DataSourceError sheet_id), c\<lparr>fetches := fetches c + 1\<rparr>)
           | Some tbl \<Rightarrow>
               (Inr (normalize_headers tbl),
                c\<lparr>entries := (entries c)((sheet_id, worksheet_name) \<mapsto> (normalize_headers tbl, now)),
                  fetches := fetches c + 1\<rparr>)))"

text \<open>
  Modelled from the spec: \<open>invalidate\<close> drops the entry of the given key, or every entry
  when no key is given (\<open>clear_cache\<close>).
\<close>

definition invalidate :: "sheet_cache \<Rightarrow> key option \<Rightarrow> sheet_cache" where
  "invalidate c k =
     (case k of
        None \<Rightarrow> c\<lparr>entries := Map.empty\<rparr>
      | Some k' \<Rightarrow> c\<lparr>entries := (entries c)(k' := None)\<rparr>)"

definition clear_cache :: "sheet_cache \<Rightarrow> sheet_cache" where
  "clear_cache c = invalidate c None"

text \<open>
  Modelled from the spec: \<open>appendRow\<close> (\<open>append_row\<close>) appends one row to the remote table
  and, on success, invalidates the entry of the key; on a remote failure it returns False.
\<close>

definition append_row ::
  "sheet_cache \<Rightarrow> string \<Rightarrow> cell list \<Rightarrow> string option \<Rightarrow> bool \<times> sheet_cache" where
  "append_row c sheet_id row worksheet_name =
     (case remote c (sheet_id, worksheet_name) of
        None \<Rightarrow> (False, c)
      | Some tbl \<Rightarrow>
          (True,
           invalidate
             (c\<lparr>remote := (remote c)((sheet_id, worksheet_name) \<mapsto> tbl\<lparr>rows := rows tbl @ [row]\<rparr>)\<rparr>)
             (Some (sheet_id, worksheet_name))))"

text \<open>
  Modelled from the spec: \<open>updateTable\<close> (\<open>update_sheet_data\<close>) replaces the remote table
  by the given one, with the same invalidation on success.
\<close>

definition update_sheet_data ::
  "sheet_cache \<Rightarrow> string \<Rightarrow> dataframe \<Rightarrow> string option \<Rightarrow> bool \<times> sheet_cache" where
  "update_sheet_data c sheet_id df worksheet_name =
     (case remote c (sheet_id, worksheet_name) of
        None \<Rightarrow> (False, c)
      | Some tbl \<Rightarrow>
          (True,
           invalidate (c\<lparr>remote := (remote c)((sheet_id, worksheet_name) \<mapsto> df)\<rparr>)
             (Some (sheet_id, worksheet_name))))"

subsection \<open>The page\<close>

text \<open>The calls the page makes on the sheets manager, and what it shows.\<close>

datatype call =
    Get_sheet_data string "string option" bool
  | Append_row string "cell list" string
  | Clear_cache

datatype ui_msg =
    Auto_loaded nat
  | Auto_load_empty
  | Auto_load_failed exn
  | No_sheet_url
  | Reloaded nat
  | Reload_empty
  | Reload_failed exn
  | No_data_loaded
  | Missing_required "string list"
  | Project_added
  | Append_failed
  | Error_adding_project exn
  | Pause nat
  | Rerun

text \<open>
  The keys of \<open>st.session_state\<close> that the page uses (an absent key and None are both
  None here), the sheets manager, the calls made on it and the messages shown, oldest
  first.
\<close>

record page =
  project_data :: "dataframe option"
  project_last_auto_load :: "int option"
  project_sheet_url :: string
  project_worksheet_name :: string
  project_auto_load_enabled :: "bool option"
  manager :: sheet_cache
  calls :: "call list"
  ui :: "ui_msg list"

definition show_msgs :: "ui_msg list \<Rightarrow> page \<Rightarrow> page" where
  "show_msgs ms s = s\<lparr>ui := ui s @ ms\<rparr>"

definition called :: "call \<Rightarrow> page \<Rightarrow> page" where
  "called c s = s\<lparr>calls := calls s @ [c]\<rparr>"

text \<open>\<open>worksheet_name if worksheet_name else None\<close>\<close>

definition worksheet_or_None :: "string \<Rightarrow> string option" where
  "worksheet_or_None worksheet_name = (if worksheet_name = [] then None else Some worksheet_name)"

text \<open>
  \<open>auto_load_project_data\<close>. \<open>now\<close> is the clock when the function is entered and
  \<open>loaded_at\<close> the clock after the data has arrived. The page keeps its data for 300
  seconds after a load.
\<close>

definition auto_load_project_data :: "page \<Rightarrow> int \<Rightarrow> int \<Rightarrow> page" where
  "auto_load_project_data s now loaded_at =
     (if \<not> (case project_auto_load_enabled s of None \<Rightarrow> True | Some b \<Rightarrow> b) then s
      else if (case (project_data s, project_last_auto_load s) of
                 (Some df, Some last_load) \<Rightarrow> now - last_load < 300 * 1000000
               | _ \<Rightarrow> False) then s
      else if project_sheet_url s = [] then s
      else
        (case get_sheet_data (manager s) (project_sheet_url s)
                (worksheet_or_None (project_worksheet_name s)) True now of
           (Inl e, m) \<Rightarrow>
             show_msgs [Auto_load_failed e]
               ((called (Get_sheet_data (project_sheet_url s)
                   (worksheet_or_None (project_worksheet_name s)) True) s)\<lparr>manager := m\<rparr>)
         | (Inr df, m) \<Rightarrow>
             if \<not> df_empty df then
               show_msgs [Auto_loaded (length (rows df)), Pause 3]
                 ((called (Get_sheet_data (project_sheet_url s)
                     (worksheet_or_None (project_worksheet_name s)) True) s)
                    \<lparr>manager := m, project_data := Some df, project_last_auto_load := Some loaded_at\<rparr>)
             else
               show_msgs [Auto_load_empty]
                 ((called (Get_sheet_data (project_sheet_url s)
                     (worksheet_or_None (project_worksheet_name s)) True) s)\<lparr>manager := m\<rparr>)))"

text \<open>\<open>force_reload_project_data\<close>: the cache is cleared and the table is read past it.\<close>

definition force_reload_project_data :: "page \<Rightarrow> int \<Rightarrow> int \<Rightarrow> page" where
  "force_reload_project_data s now loaded_at =
     (if project_sheet_url s = [] then show_msgs [No_sheet_url] s
      else
        let s1 = (called Clear_cache s)\<lparr>manager := clear_cache (manager s)\<rparr>;
            s2 = called (Get_sheet_data (project_sheet_url s)
                   (worksheet_or_None (project_worksheet_name s)) False) s1
        in case get_sheet_data (manager s2) (project_sheet_url s)
                  (worksheet_or_None (project_worksheet_name s)) False now of
             (Inl e, m) \<Rightarrow> show_msgs [Reload_failed e] (s2\<lparr>manager := m\<rparr>)
           | (Inr df, m) \<Rightarrow>
               if \<not> df_empty df then
                 show_msgs [Reloaded (length (rows df)), Rerun]
                   (s2\<lparr>manager := m, project_data := Some df,
                        project_last_auto_load := Some loaded_at\<rparr>)
               else show_msgs [Reload_empty] (s2\<lparr>manager := m\<rparr>))"

subsection \<open>The Add Project form\<close>

text \<open>
  The page imports the class with \<open>from datetime import datetime\<close>, so the name
  \<open>datetime\<close> is the class \<open>datetime.datetime\<close>, and \<open>datetime.date\<close> is the method of
  that class that returns the date part of an instance: a method descriptor, not a class.
\<close>

datatype py_object = Class string | Method_descriptor string string

definition datetime :: py_object where
  "datetime = Class ''datetime.datetime''"

fun getattr :: "py_object \<Rightarrow> string \<Rightarrow> exn + py_object" where
  "getattr (Class c) name =
     (if c = ''datetime.datetime'' \<and> name \<in> set [''date'', ''time'', ''strftime'', ''isoformat'']
      then Inr (Method_descriptor c name)
      else Inl (AttributeError name))"
| "getattr (Method_descriptor c m) name = Inl (AttributeError name)"

fun class_of :: "cell \<Rightarrow> string" where
  "class_of (Text _) = ''str''"
| "class_of (Number _) = ''float''"
| "class_of (Date _ _ _) = ''datetime.date''"

text \<open>
  \<open>isinstance(value, c)\<close>: the second argument must be a class; for anything else
  Python raises TypeError, whatever the value is.
\<close>

fun isinstance :: "cell \<Rightarrow> py_object \<Rightarrow> exn + bool" where
  "isinstance value (Class c) = Inr (class_of value = c)"
| "isinstance value (Method_descriptor c m) =
     Inl (TypeError ''isinstance() arg 2 must be a type, a tuple of types, or a union'')"

text \<open>\<open>value.strftime("%Y-%m-%d")\<close> of a date.\<close>

definition digit :: "nat \<Rightarrow> char" where
  "digit n = char_of (48 + n mod 10)"

fun strftime_ymd :: "cell \<Rightarrow> cell" where
  "strftime_ymd (Date y m d) =
     Text ([digit (y div 1000), digit (y div 100), digit (y div 10), digit y] @ ''-'' @
           [digit (m div 10), digit m] @ ''-'' @ [digit (d div 10), digit d])"
| "strftime_ymd value = value"

text \<open>Truth value of a form value: an empty text and zero are false.\<close>

fun truthy :: "cell \<Rightarrow> bool" where
  "truthy (Text t) = (t \<noteq> [])"
| "truthy (Number n) = (n \<noteq> 0)"
| "truthy (Date _ _ _) = True"

definition required_fields :: "string list" where
  "required_fields = [''Project Name'', ''Status'', ''Start Date'', ''Due Date'']"

definition missing_fields :: "(string \<rightharpoonup> cell) \<Rightarrow> string list" where
  "missing_fields form_data =
     filter (\<lambda>field. \<not> (case form_data field of None \<Rightarrow> False | Some v \<Rightarrow> truthy v))
       required_fields"

text \<open>
  The loop that builds the new row: one value for each column of the loaded table, a date
  rendered as text.
\<close>

fun build_new_row :: "(string \<rightharpoonup> cell) \<Rightarrow> string list \<Rightarrow> exn + cell list" where
  "build_new_row form_data [] = Inr []"
| "build_new_row form_data (col # cols) =
     (let value = (case form_data col of None \<Rightarrow> Text [] | Some v \<Rightarrow> v)
      in case getattr datetime ''date'' of
           Inl e \<Rightarrow> Inl e
         | Inr date_attr \<Rightarrow>
             (case isinstance value date_attr of
                Inl e \<Rightarrow> Inl e
              | Inr is_date \<Rightarrow>
                  (case build_new_row form_data cols of
                     Inl e \<Rightarrow> Inl e
                   | Inr new_row \<Rightarrow>
                       Inr ((if is_date then strftime_ymd value else value) # new_row))))"

text \<open>
  \<open>render_add_project_tab\<close>, from the check of the loaded data to the end of the
  \<open>if submitted:\<close> block; \<open>form_data\<close> holds what the widgets returned.
\<close>

definition render_add_project_tab ::
  "page \<Rightarrow> (string \<rightharpoonup> cell) \<Rightarrow> bool \<Rightarrow> int \<Rightarrow> int \<Rightarrow> page" where
  "render_add_project_tab s form_data submitted now loaded_at =
     (case project_data s of
        None \<Rightarrow> show_msgs [No_data_loaded] s
      | Some df \<Rightarrow>
          if \<not> submitted then s
          else if missing_fields form_data \<noteq> [] then
            show_msgs [Missing_required (missing_fields form_data)] s
          else
            (case build_new_row form_data (columns df) of
               Inl e \<Rightarrow> show_msgs [Error_adding_project e] s
             | Inr new_row \<Rightarrow>
                 (case append_row (manager s) (project_sheet_url s) new_row
                         (Some (project_worksheet_name s)) of
                    (True, m) \<Rightarrow>
                      force_reload_project_data
                        (show_msgs [Pause 1]
                          ((called Clear_cache
                             (show_msgs [Project_added]
                               ((called (Append_row (project_sheet_url s) new_row
                                   (project_worksheet_name s)) s)\<lparr>manager := m\<rparr>)))
                            \<lparr>manager := clear_cache m\<rparr>))
                        now loaded_at
                  | (False, m) \<Rightarrow>
                      show_msgs [Append_failed]
                        ((called (Append_row (project_sheet_url s) new_row
                            (project_worksheet_name s)) s)\<lparr>manager := m\<rparr>))))"

text \<open>The sample table of \<open>create_sample_project_data\<close> (its first row) and a filled form.\<close>

definition sample_project_data :: dataframe where
  "sample_project_data =
     \<lparr>columns = [''Project Name'', ''Description'', ''Status'', ''Start Date'', ''Due Date'',
                 ''Assigned To'', ''Priority'', ''Budget'', ''Actual Cost'', ''Notes''],
      rows = [[Text ''Website Redesign'', Text ''Revamp company website for modern look'',
               Text ''In Progress'', Text ''2024-01-01'', Text ''2024-06-30'', Text ''Alice'',
               Text ''High'', Number 1500000, Number 1200000, Text ''Focus on UX/UI'']]\<rparr>"

definition sample_form :: "string \<rightharpoonup> cell" where
  "sample_form =
     [''Project Name'' \<mapsto> Text ''P1'', ''Description'' \<mapsto> Text ''desc'',
      ''Status'' \<mapsto> Text ''Not Started'', ''Start Date'' \<mapsto> Date 2024 1 1,
      ''Due Date'' \<mapsto> Date 2024 2 1, ''Assigned To'' \<mapsto> Text ''Alice'',
      ''Priority'' \<mapsto> Text ''High'', ''Budget'' \<mapsto> Number 10000,
      ''Actual Cost'' \<mapsto> Number 0, ''Notes'' \<mapsto> Text []]"

definition sample_manager :: sheet_cache where
  "sample_manager =
     \<lparr>entries = Map.empty,
      remote = [(''sheet1'', None) \<mapsto> sample_project_data],
      fetches = 0\<rparr>"

definition sample_page :: page where
  "sample_page =
     \<lparr>project_data = Some sample_project_data,
      project_last_auto_load = Some 0,
      project_sheet_url = ''sheet1'',
      project_worksheet_name = [],
      project_auto_load_enabled = Some True,
      manager = sample_manager,
      calls = [],
      ui = []\<rparr>"

text \<open>The sample manager after one cached read at time 0.\<close>

definition warm_manager :: sheet_cache where
  "warm_manager = snd (get_sheet_data sample_manager ''sheet1'' None True 0)"

text \<open>The sample page before any load.\<close>

definition cold_page :: page where
  "cold_page = sample_page\<lparr>project_data := None, project_last_auto_load := None\<rparr>"


text \<open>
  The attempts that the history view shows for an entry
  (\<open>render_webhook_history\<close>): \<open>response.get('attempt_count', 1)\<close>.
\<close>

definition attempts_shown :: "entry \<Rightarrow> pyval" where
  "attempts_shown response =
     (case map_of response ''attempt_count'' of None \<Rightarrow> PyInt 1 | Some v \<Rightarrow> v)"

text \<open>
  The network events of a call: the posts and sleeps of the retry loop, when every gate
  passes and the endpoint has a stats entry; none otherwise.
\<close>

definition network_events :: "'p env \<Rightarrow> state \<Rightarrow> 'p \<Rightarrow> string \<Rightarrow> string \<Rightarrow> event list" where
  "network_events env st payload webhook_type url =
     (if gates_pass env st payload webhook_type \<and> webhook_stats st webhook_type \<noteq> None
      then snd (send_attempts env url (sanitize_payload env payload) 3 1 [0..<3] [])
      else [])"

text \<open>
  Dispatching to one endpoint alone: the result that the fan-out records for it (the
  triple of \<open>send_to_webhook\<close>, or the failure built from an exception that leaves it) and
  the events of that dispatch.
\<close>

definition alone_result :: "'p env \<Rightarrow> state \<Rightarrow> 'p \<Rightarrow> string \<Rightarrow> bool \<times> message \<times> entry" where
  "alone_result env st payload webhook_type =
     (case fst (send_to_webhook env st payload (Some webhook_type)) of
        Inr r \<Rightarrow> r
      | Inl e \<Rightarrow>
          (False, Error_sending webhook_type e,
           [(''error'', PyExn e), (''exception_type'', PyStr (exception_type e))]))"

definition alone_events :: "'p env \<Rightarrow> state \<Rightarrow> 'p \<Rightarrow> string \<Rightarrow> event list" where
  "alone_events env st payload webhook_type =
     new_events st (snd (send_to_webhook env st payload (Some webhook_type)))"

section \<open>Properties of the retry loop\<close>

lemma send_attempts_step:
  assumes "transport_failure (requests_post env url p a)" and "a \<noteq> mr - 1"
  shows "send_attempts env url p mr rd (a # as) tr =
         send_attempts env url p mr rd as (tr @ [Post url a, Sleep (rd * (a + 1))])"
proof (cases "requests_post env url p a")
  case (Response sc body)
  with assms show ?thesis by (simp add: transport_failure_def)
next
  case (Raises e)
  with assms show ?thesis by (simp add: transport_failure_def)
qed

lemma send_attempts_stop:
  assumes "\<not> transport_failure (requests_post env url p a) \<or> a = mr - 1"
  shows "send_attempts env url p mr rd (a # as) tr =
     ((case requests_post env url p a of
         Response sc body \<Rightarrow> Inr (sc, body, a) | Raises e \<Rightarrow> Inl e),
      tr @ [Post url a])"
proof (cases "requests_post env url p a")
  case (Response sc body)
  then show ?thesis by simp
next
  case (Raises e)
  show ?thesis
  proof (cases "is_Timeout e \<or> is_ConnectionError e")
    case True
    with assms Raises have "a = mr - 1" by (simp add: transport_failure_def)
    with True Raises show ?thesis by simp
  next
    case False
    with Raises show ?thesis by simp
  qed
qed

text \<open>
  The loop runs through the attempts that fail in transport, sleeping after each, and stops
  at the first attempt that does not (or at the last attempt).
\<close>

lemma send_attempts_prefix:
  assumes "\<forall>a \<in> set pre. transport_failure (requests_post env url p a) \<and> a \<noteq> mr - 1"
    and "\<not> transport_failure (requests_post env url p k) \<or> k = mr - 1"
  shows "send_attempts env url p mr rd (pre @ k # rest) tr =
     ((case requests_post env url p k of
         Response sc body \<Rightarrow> Inr (sc, body, k) | Raises e \<Rightarrow> Inl e),
      tr @ concat (map (\<lambda>a. [Post url a, Sleep (rd * (a + 1))]) pre) @ [Post url k])"
  using assms
proof (induction pre arbitrary: tr)
  case Nil
  then show ?case
    using send_attempts_stop [of env url p k mr rd rest tr] by simp
next
  case (Cons a pre)
  have "send_attempts env url p mr rd ((a # pre) @ k # rest) tr =
        send_attempts env url p mr rd (pre @ k # rest) (tr @ [Post url a, Sleep (rd * (a + 1))])"
    using Cons.prems(1) send_attempts_step [of env url p a mr rd "pre @ k # rest" tr] by simp
  also have "\<dots> =
     ((case requests_post env url p k of
         Response sc body \<Rightarrow> Inr (sc, body, k) | Raises e \<Rightarrow> Inl e),
      (tr @ [Post url a, Sleep (rd * (a + 1))]) @
        concat (map (\<lambda>a. [Post url a, Sleep (rd * (a + 1))]) pre) @ [Post url k])"
    using Cons.IH [of "tr @ [Post url a, Sleep (rd * (a + 1))]"] Cons.prems by simp
  finally show ?case by simp
qed

lemma upt_split3: "k < 3 \<Longrightarrow> [0..<3] = [0..<k] @ k # [Suc k..<3]"
  using upt_add_eq_append [of 0 k "3 - k"] by (simp add: upt_conv_Cons)

lemma send_attempts_append:
  "send_attempts env url p mr rd as tr =
     (fst (send_attempts env url p mr rd as []), tr @ snd (send_attempts env url p mr rd as []))"
proof (induction as arbitrary: tr)
  case Nil
  show ?case by simp
next
  case (Cons a as)
  show ?case
  proof (cases "transport_failure (requests_post env url p a) \<and> a \<noteq> mr - 1")
    case True
    then have step: "\<And>t. send_attempts env url p mr rd (a # as) t =
        send_attempts env url p mr rd as (t @ [Post url a, Sleep (rd * (a + 1))])"
      using send_attempts_step [of env url p a mr rd as] by blast
    show ?thesis
      unfolding step
      using Cons.IH [of "tr @ [Post url a, Sleep (rd * (a + 1))]"]
        Cons.IH [of "[] @ [Post url a, Sleep (rd * (a + 1))]"]
      by simp
  next
    case False
    then have stop: "\<And>t. send_attempts env url p mr rd (a # as) t =
       ((case requests_post env url p a of
           Response sc body \<Rightarrow> Inr (sc, body, a) | Raises e \<Rightarrow> Inl e), t @ [Post url a])"
      using send_attempts_stop [of env url p a mr rd as] by blast
    show ?thesis unfolding stop by simp
  qed
qed

lemma send_attempts_network:
  "\<forall>ev \<in> set tr. is_network ev \<Longrightarrow>
   \<forall>ev \<in> set (snd (send_attempts env url p mr rd as tr)). is_network ev"
proof (induction as arbitrary: tr)
  case Nil
  then show ?case by simp
next
  case (Cons a as)
  show ?case
  proof (cases "transport_failure (requests_post env url p a) \<and> a \<noteq> mr - 1")
    case True
    then have step: "send_attempts env url p mr rd (a # as) tr =
        send_attempts env url p mr rd as (tr @ [Post url a, Sleep (rd * (a + 1))])"
      using send_attempts_step [of env url p a mr rd as] by blast
    show ?thesis
      unfolding step using Cons.prems by (intro Cons.IH) auto
  next
    case False
    then have stop: "send_attempts env url p mr rd (a # as) tr =
       ((case requests_post env url p a of
           Response sc body \<Rightarrow> Inr (sc, body, a) | Raises e \<Rightarrow> Inl e), tr @ [Post url a])"
      using send_attempts_stop [of env url p a mr rd as] by blast
    show ?thesis unfolding stop using Cons.prems by auto
  qed
qed

lemma bump_trace: "bump f w st = Inr st' \<Longrightarrow> trace st' = trace st"
  by (auto simp: bump_def split: option.splits)

lemma after_response_trace:
  "trace (snd (after_response env st wt url sc body n a)) = trace st"
  by (simp add: after_response_def bump_def Let_def split: option.splits)

lemma record_error_trace: "trace (snd (record_error st wt ed msg)) = trace st"
  by (simp add: record_error_def bump_def Let_def split: option.splits)

lemma handlers_trace: "trace (snd (handlers env st wt url e)) = trace st"
  by (cases e) (simp_all add: record_error_trace)

section \<open>The body of the dispatch, gate by gate\<close>

lemma passed_gates_eq:
  "passed_gates st wt =
     st\<lparr>trace := trace st @ [Rate_check (user_id_of st) wt, Validate, Sanitize, Size_check]\<rparr>"
  by (simp add: passed_gates_def log_event_def)

lemma try_body_rate_refused:
  assumes "\<not> fst (check_rate_limit env (user_id_of st) wt)"
  shows "try_body env st p wt url =
     (Inl (RateLimitError (snd (check_rate_limit env (user_id_of st) wt))),
      st\<lparr>trace := trace st @ [Rate_check (user_id_of st) wt]\<rparr>)"
  using assms by (simp add: try_body_def log_event_def Let_def)

lemma try_body_invalid:
  assumes "fst (check_rate_limit env (user_id_of st) wt)"
    and "\<not> fst (validate_webhook_payload env p)"
  shows "try_body env st p wt url =
     (Inl (ValidationError (snd (validate_webhook_payload env p))),
      st\<lparr>trace := trace st @ [Rate_check (user_id_of st) wt, Validate]\<rparr>)"
  using assms by (simp add: try_body_def log_event_def Let_def)

lemma try_body_valid:
  assumes "fst (check_rate_limit env (user_id_of st) wt)"
    and "fst (validate_webhook_payload env p)"
  shows "try_body env st p wt url =
     (case json_dumps_size env (sanitize_payload env p) of
        Inl e \<Rightarrow> (Inl e, passed_gates st wt)
      | Inr payload_size \<Rightarrow>
          if payload_size > 10 * 1024 * 1024
          then
            (case format_file_size payload_size of
               Inl e \<Rightarrow> (Inl e, passed_gates st wt)
             | Inr (shown, unit_name) \<Rightarrow>
                 (Inl (PayloadTooLargeError payload_size unit_name), passed_gates st wt))
          else
            (case bump inc_sent wt (passed_gates st wt) of
               Inl e \<Rightarrow> (Inl e, passed_gates st wt)
             | Inr st5 \<Rightarrow>
                 (case send_attempts env url (sanitize_payload env p) 3 1 [0..<3] (trace st5) of
                    (Inl e, tr) \<Rightarrow> (Inl e, st5\<lparr>trace := tr\<rparr>)
                  | (Inr (status_code, body, attempt), tr) \<Rightarrow>
                      after_response env (st5\<lparr>trace := tr\<rparr>) wt url
                        status_code body payload_size attempt)))"
  unfolding try_body_def Let_def passed_gates_def using assms by simp

lemma try_body_oversized:
  assumes "fst (check_rate_limit env (user_id_of st) wt)"
    and "fst (validate_webhook_payload env p)"
    and "json_dumps_size env (sanitize_payload env p) = Inr n"
    and "n > 10 * 1024 * 1024"
  shows "try_body env st p wt url =
     ((case format_file_size n of
         Inl e \<Rightarrow> Inl e
       | Inr (shown, unit_name) \<Rightarrow> Inl (PayloadTooLargeError n unit_name)),
      passed_gates st wt)"
  unfolding try_body_valid [OF assms(1,2)]
  using assms(3,4) by (simp split: sum.splits prod.splits)

lemma try_body_sends:
  assumes "fst (check_rate_limit env (user_id_of st) wt)"
    and "fst (validate_webhook_payload env p)"
    and "json_dumps_size env (sanitize_payload env p) = Inr n"
    and "n \<le> 10 * 1024 * 1024"
    and "webhook_stats st wt = Some s"
  shows "try_body env st p wt url =
     (let st5 = (passed_gates st wt)\<lparr>webhook_stats := (webhook_stats st)(wt \<mapsto> inc_sent s)\<rparr>;
          r = send_attempts env url (sanitize_payload env p) 3 1 [0..<3] []
      in case fst r of
           Inl e \<Rightarrow> (Inl e, st5\<lparr>trace := trace st5 @ snd r\<rparr>)
         | Inr (status_code, body, attempt) \<Rightarrow>
             after_response env (st5\<lparr>trace := trace st5 @ snd r\<rparr>) wt url
               status_code body n attempt)"
proof -
  have b: "bump inc_sent wt (passed_gates st wt) =
    Inr ((passed_gates st wt)\<lparr>webhook_stats := (webhook_stats st)(wt \<mapsto> inc_sent s)\<rparr>)"
    using assms(5) by (simp add: bump_def passed_gates_eq)
  show ?thesis
    unfolding try_body_valid [OF assms(1,2)] Let_def
    using assms(3,4) b
    by (subst send_attempts_append) (simp split: sum.splits prod.splits)
qed

section \<open>Dispatch to a configured endpoint\<close>

lemma send_to_webhook_configured:
  assumes "webhook_urls st (webhook_type_or_selected st arg) = Some url"
  shows "send_to_webhook env st p arg =
     (case try_body env st p (webhook_type_or_selected st arg) url of
        (Inr r, st') \<Rightarrow> (Inr r, st')
      | (Inl e, st') \<Rightarrow> handlers env st' (webhook_type_or_selected st arg) url e)"
  using assms by (simp add: send_to_webhook_def Let_def)

lemma send_to_webhook_trace:
  assumes "webhook_urls st (webhook_type_or_selected st arg) = Some url"
  shows "trace (snd (send_to_webhook env st p arg)) =
         trace (snd (try_body env st p (webhook_type_or_selected st arg) url))"
proof (cases "try_body env st p (webhook_type_or_selected st arg) url")
  case (Pair r st')
  then show ?thesis
    unfolding send_to_webhook_configured [OF assms]
    by (cases r) (simp_all add: handlers_trace)
qed

lemma attempts_until:
  assumes "k < 3"
    and "\<forall>j<k. transport_failure (requests_post env url p j)"
    and "\<not> transport_failure (requests_post env url p k) \<or> k = 2"
  shows "send_attempts env url p 3 1 [0..<3] [] =
     ((case requests_post env url p k of
         Response sc body \<Rightarrow> Inr (sc, body, k) | Raises e \<Rightarrow> Inl e),
      concat (map (\<lambda>a. [Post url a, Sleep (a + 1)]) [0..<k]) @ [Post url k])"
proof -
  have "\<forall>a \<in> set [0..<k]. transport_failure (requests_post env url p a) \<and> a \<noteq> 3 - 1"
    using assms(1,2) by auto
  moreover have "\<not> transport_failure (requests_post env url p k) \<or> k = 3 - 1"
    using assms(3) by simp
  ultimately show ?thesis
    using send_attempts_prefix [of "[0..<k]" env url p 3 k 1 "[Suc k..<3]" "[]"]
      upt_split3 [OF assms(1)]
    by simp
qed

lemma filter_Post_attempts:
  "filter is_Post (concat (map (\<lambda>a. [Post url a, Sleep (a + 1)]) as) @ [Post url k]) =
     map (Post url) (as @ [k])"
  by (induction as) simp_all

lemma record_error_responses:
  "webhook_responses (snd (record_error st wt ed msg)) = ed # webhook_responses st"
  by (simp add: record_error_def bump_def Let_def split: option.splits)

lemma record_error_sent:
  "map_option sent (webhook_stats (snd (record_error st wt ed msg)) w) =
   map_option sent (webhook_stats st w)"
  by (simp add: record_error_def bump_def Let_def inc_errors_def split: option.splits)

lemma send_to_webhook_rate_refused:
  assumes "webhook_urls st (webhook_type_or_selected st arg) = Some url"
    and "\<not> fst (check_rate_limit env (user_id_of st) (webhook_type_or_selected st arg))"
  shows "send_to_webhook env st p arg =
     record_error
       (st\<lparr>trace := trace st @ [Rate_check (user_id_of st) (webhook_type_or_selected st arg)]\<rparr>)
       (webhook_type_or_selected st arg)
       (error_base env ''Rate limit exceeded'' (webhook_type_or_selected st arg) url)
       (Rate_limit_refused
          (snd (check_rate_limit env (user_id_of st) (webhook_type_or_selected st arg))))"
  unfolding send_to_webhook_configured [OF assms(1)] try_body_rate_refused [OF assms(2)]
  by simp

lemma send_to_webhook_invalid:
  assumes "webhook_urls st (webhook_type_or_selected st arg) = Some url"
    and "fst (check_rate_limit env (user_id_of st) (webhook_type_or_selected st arg))"
    and "\<not> fst (validate_webhook_payload env p)"
  shows "send_to_webhook env st p arg =
     record_error
       (st\<lparr>trace := trace st @
            [Rate_check (user_id_of st) (webhook_type_or_selected st arg), Validate]\<rparr>)
       (webhook_type_or_selected st arg)
       (error_base env ''Validation failed'' (webhook_type_or_selected st arg) url @
          [(''validation_errors'', PyList (error_list env (snd (validate_webhook_payload env p)))),
           (''validation_passed'', PyBool False)])
       (Validation_failed (snd (validate_webhook_payload env p)))"
  unfolding send_to_webhook_configured [OF assms(1)] try_body_invalid [OF assms(2,3)]
  by simp

lemma send_to_webhook_too_large:
  assumes "webhook_urls st (webhook_type_or_selected st arg) = Some url"
    and "fst (check_rate_limit env (user_id_of st) (webhook_type_or_selected st arg))"
    and "fst (validate_webhook_payload env p)"
    and "json_dumps_size env (sanitize_payload env p) = Inr n"
    and "n > 10 * 1024 * 1024"
    and "format_file_size n = Inr (shown, unit_name)"
  shows "send_to_webhook env st p arg =
     record_error
       (passed_gates st (webhook_type_or_selected st arg))
       (webhook_type_or_selected st arg)
       (error_base env ''Payload too large'' (webhook_type_or_selected st arg) url @
          [(''payload_size'', PyInt (int n))])
       (Payload_too_large n unit_name)"
  unfolding send_to_webhook_configured [OF assms(1)] try_body_oversized [OF assms(2,3,4,5)]
  using assms(6) by simp


text \<open>The unit index is below 4 exactly for sizes below 1024 to the 4th.\<close>

lemma unit_index_less:
  "unit_index n < Suc k \<longleftrightarrow> n < 1024 ^ Suc k"
proof (induction k arbitrary: n)
  case 0
  show ?case by (subst unit_index.simps) simp
next
  case (Suc k)
  have "unit_index n < Suc (Suc k) \<longleftrightarrow> n < 1024 \<or> unit_index (n div 1024) < Suc k"
    by (subst unit_index.simps) simp
  also have "\<dots> \<longleftrightarrow> n < 1024 \<or> n div 1024 < 1024 ^ Suc k"
    by (simp only: Suc.IH)
  also have "\<dots> \<longleftrightarrow> n < 1024 ^ Suc (Suc k)"
  proof -
    have d: "n div 1024 < 1024 ^ Suc k \<longleftrightarrow> n < 1024 ^ Suc k * 1024"
      by (rule div_less_iff_less_mult) simp
    have "(1::nat) \<le> 1024 ^ Suc k" by simp
    then have "(1024::nat) \<le> 1024 ^ Suc k * 1024" by simp
    then have s: "n < 1024 \<Longrightarrow> n < 1024 ^ Suc k * 1024" by linarith
    have p: "(1024::nat) ^ Suc (Suc k) = 1024 ^ Suc k * 1024" by simp
    show ?thesis unfolding d p using s by blast
  qed
  finally show ?case .
qed

lemma unit_index_less_4: "unit_index n < 4 \<longleftrightarrow> n < 1024 ^ 4"
proof -
  have "unit_index n < Suc 3 \<longleftrightarrow> n < 1024 ^ Suc 3" by (rule unit_index_less)
  moreover have "Suc 3 = 4" by simp
  ultimately show ?thesis by simp
qed

lemma format_file_size_renders:
  assumes "0 < n" and "n < 1024 ^ 4"
  shows "\<exists>unit_name. format_file_size n = Inr (n, unit_name)"
  using assms unit_index_less_4 [of n] by (simp add: format_file_size_def size_names_def)


section \<open>The initial session\<close>

lemma initial_audio_url:
  "webhook_urls initialize_session_state (webhook_type_or_selected initialize_session_state (Some ''audio'')) =
     Some ''https://agentonline-u29564.vm.elestio.app/webhook-test/audio-files''"
  by (simp add: initialize_session_state_def WEBHOOK_URLS_def webhook_type_or_selected_def)

lemma initial_audio_stats:
  "webhook_stats initialize_session_state (webhook_type_or_selected initialize_session_state (Some ''audio'')) =
     Some \<lparr>sent = 0, success = 0, errors = 0\<rparr>"
  by (simp add: initialize_session_state_def WEBHOOK_URLS_def webhook_type_or_selected_def)

section \<open>Claims on the retry loop\<close>

text \<open>
  Claim C7 (retry boundary). In a dispatch that passes its gates, the loop retries only
  after a transport failure (a timeout or a connection error). If the first \<open>k\<close> attempts
  fail in transport and attempt \<open>k\<close> does not (an HTTP response of any status, 4xx, 5xx
  and 429 included, or an exception of another kind), the requests posted by the call are
  exactly the attempts \<open>0, ..., k\<close>: nothing is sent after attempt \<open>k\<close>.
\<close>

theorem retry_boundary:
  assumes url: "webhook_urls st (webhook_type_or_selected st arg) = Some url"
    and rate: "fst (check_rate_limit env (user_id_of st) (webhook_type_or_selected st arg))"
    and valid: "fst (validate_webhook_payload env p)"
    and size: "json_dumps_size env (sanitize_payload env p) = Inr n" "n \<le> 10 * 1024 * 1024"
    and stats: "webhook_stats st (webhook_type_or_selected st arg) = Some s"
    and k: "k < 3"
    and before: "\<forall>j<k. transport_failure (requests_post env url (sanitize_payload env p) j)"
    and at_k: "\<not> transport_failure (requests_post env url (sanitize_payload env p) k)"
  shows "filter is_Post (new_events st (snd (send_to_webhook env st p arg))) =
           map (Post url) [0..<Suc k]"
proof -
  let ?wt = "webhook_type_or_selected st arg"
  let ?p = "sanitize_payload env p"
  let ?gates = "[Rate_check (user_id_of st) ?wt, Validate, Sanitize, Size_check]"
  let ?net = "concat (map (\<lambda>a. [Post url a, Sleep (a + 1)]) [0..<k]) @ [Post url k]"
  have att: "send_attempts env url ?p 3 1 [0..<3] [] =
     ((case requests_post env url ?p k of
         Response sc body \<Rightarrow> Inr (sc, body, k) | Raises e \<Rightarrow> Inl e), ?net)"
    using attempts_until [OF k before] at_k by blast
  have tr: "trace (snd (send_to_webhook env st p arg)) = trace st @ ?gates @ ?net"
    unfolding send_to_webhook_trace [OF url]
      try_body_sends [OF rate valid size stats] Let_def att
    by (cases "requests_post env url ?p k")
       (simp_all add: after_response_trace passed_gates_eq)
  show ?thesis
    unfolding new_events_def tr using filter_Post_attempts [of url "[0..<k]" k] by simp
qed

text \<open>
  On the initial session, with a transport that times out once and then answers 503, the
  call posts twice and stops.
\<close>

theorem retry_boundary_witness:
  "filter is_Post (new_events initialize_session_state
      (snd (send_to_webhook (fallback_env flaky_transport) initialize_session_state ''{}'' (Some ''audio'')))) =
   [Post ''https://agentonline-u29564.vm.elestio.app/webhook-test/audio-files'' 0,
    Post ''https://agentonline-u29564.vm.elestio.app/webhook-test/audio-files'' 1]"
proof -
  have "filter is_Post (new_events initialize_session_state
      (snd (send_to_webhook (fallback_env flaky_transport) initialize_session_state ''{}'' (Some ''audio'')))) =
     map (Post ''https://agentonline-u29564.vm.elestio.app/webhook-test/audio-files'') [0..<Suc 1]"
    by (rule retry_boundary [OF initial_audio_url _ _ _ _ initial_audio_stats, where n = 2])
       (simp_all add: fallback_env_def fallback_check_rate_limit_def fallback_validate_def
          fallback_sanitize_def flaky_transport_def transport_failure_def)
  then show ?thesis by (simp add: upt_rec)
qed

section \<open>Claims on the gates\<close>

text \<open>
  What holds of the gates. In a call to a configured endpoint where the rate limiter
  refuses, or validation fails, or the sanitised payload serialises to more than 10 MiB
  and to less than 1024 to the 4th bytes: no request is posted; the \<open>sent\<close> counter of
  every endpoint is unchanged; one entry is added to the history, and its \<open>error\<close> label
  names the first gate that failed (rate limit, validation, size); that label differs
  from the label of every entry that the handlers write for a transport failure
  (timeout, connection error).
\<close>

lemma gate_failure_recorded:
  assumes url: "webhook_urls st (webhook_type_or_selected st arg) = Some url"
    and fail: "\<not> fst (check_rate_limit env (user_id_of st) (webhook_type_or_selected st arg)) \<or>
               \<not> fst (validate_webhook_payload env p) \<or>
               (\<exists>n. json_dumps_size env (sanitize_payload env p) = Inr n \<and>
                    n > 10 * 1024 * 1024 \<and> n < 1024 ^ 4)"
  shows "filter is_Post (new_events st (snd (send_to_webhook env st p arg))) = [] \<and>
         (\<forall>w. map_option sent (webhook_stats (snd (send_to_webhook env st p arg)) w) =
              map_option sent (webhook_stats st w)) \<and>
         length (webhook_responses (snd (send_to_webhook env st p arg))) =
           Suc (length (webhook_responses st)) \<and>
         map_of (hd (webhook_responses (snd (send_to_webhook env st p arg)))) ''error'' =
           Some (PyStr (failed_gate_label env st p (webhook_type_or_selected st arg))) \<and>
         (\<forall>e st0. is_Timeout e \<or> is_ConnectionError e \<longrightarrow>
            map_of (hd (webhook_responses (snd
              (handlers env st0 (webhook_type_or_selected st arg) url e)))) ''error'' \<noteq>
            Some (PyStr (failed_gate_label env st p (webhook_type_or_selected st arg))))"
proof -
  let ?wt = "webhook_type_or_selected st arg"
  have distinct: "\<forall>e st0. is_Timeout e \<or> is_ConnectionError e \<longrightarrow>
      map_of (hd (webhook_responses (snd (handlers env st0 ?wt url e)))) ''error'' \<noteq>
      Some (PyStr (failed_gate_label env st p ?wt))"
  proof (intro allI impI)
    fix e st0
    assume "is_Timeout e \<or> is_ConnectionError e"
    then show "map_of (hd (webhook_responses (snd (handlers env st0 ?wt url e)))) ''error'' \<noteq>
      Some (PyStr (failed_gate_label env st p ?wt))"
      by (cases e) (simp_all add: record_error_responses error_base_def failed_gate_label_def)
  qed
  consider
      (rate) "\<not> fst (check_rate_limit env (user_id_of st) ?wt)"
    | (invalid) "fst (check_rate_limit env (user_id_of st) ?wt)"
        "\<not> fst (validate_webhook_payload env p)"
    | (large) n where "fst (check_rate_limit env (user_id_of st) ?wt)"
        "fst (validate_webhook_payload env p)"
        "json_dumps_size env (sanitize_payload env p) = Inr n" "n > 10 * 1024 * 1024"
        "n < 1024 ^ 4"
    using fail by blast
  then show ?thesis
  proof cases
    case rate
    show ?thesis
      unfolding send_to_webhook_rate_refused [OF url rate]
      using rate distinct
      by (simp add: new_events_def record_error_trace record_error_responses record_error_sent
            error_base_def failed_gate_label_def)
  next
    case invalid
    show ?thesis
      unfolding send_to_webhook_invalid [OF url invalid]
      using invalid distinct
      by (simp add: new_events_def record_error_trace record_error_responses record_error_sent
            error_base_def failed_gate_label_def)
  next
    case large
    from large(4,5) format_file_size_renders [of n] obtain unit_name where
      shown: "format_file_size n = Inr (n, unit_name)" by auto
    show ?thesis
      unfolding send_to_webhook_too_large [OF url large(1,2,3,4) shown]
      using large distinct
      by (simp add: new_events_def record_error_trace record_error_responses record_error_sent
            error_base_def failed_gate_label_def passed_gates_eq)
  qed
qed

text \<open>
  On the initial session with an exhausted limiter: nothing is posted, \<open>sent\<close> stays 0 and
  the entry is labelled as a rate-limit refusal.
\<close>

lemma gate_failure_recorded_example:
  "filter is_Post (new_events initialize_session_state
      (snd (send_to_webhook refusing_env initialize_session_state ''{}'' (Some ''audio'')))) = [] \<and>
   map_option sent (webhook_stats
      (snd (send_to_webhook refusing_env initialize_session_state ''{}'' (Some ''audio''))) ''audio'') =
     Some 0 \<and>
   map_of (hd (webhook_responses
      (snd (send_to_webhook refusing_env initialize_session_state ''{}'' (Some ''audio''))))) ''error'' =
     Some (PyStr ''Rate limit exceeded'')"
proof -
  have refused: "\<not> fst (check_rate_limit refusing_env (user_id_of initialize_session_state)
      (webhook_type_or_selected initialize_session_state (Some ''audio''))) \<or>
    \<not> fst (validate_webhook_payload refusing_env ''{}'') \<or>
    (\<exists>n. json_dumps_size refusing_env (sanitize_payload refusing_env ''{}'') = Inr n \<and>
         n > 10 * 1024 * 1024 \<and> n < 1024 ^ 4)"
    by (simp add: refusing_env_def fallback_env_def refusing_check_rate_limit_def)
  have label: "failed_gate_label refusing_env initialize_session_state ''{}''
      (webhook_type_or_selected initialize_session_state (Some ''audio'')) = ''Rate limit exceeded''"
    by (simp add: failed_gate_label_def refusing_env_def fallback_env_def
          refusing_check_rate_limit_def)
  have zero: "map_option sent (webhook_stats initialize_session_state ''audio'') = Some 0"
    by (simp add: initialize_session_state_def WEBHOOK_URLS_def)
  show ?thesis
    using gate_failure_recorded [OF initial_audio_url refused] label zero by simp
qed


lemma try_body_valid_trace:
  assumes rate: "fst (check_rate_limit env (user_id_of st) wt)"
    and valid: "fst (validate_webhook_payload env p)"
  shows "\<exists>net. trace (snd (try_body env st p wt url)) =
            trace st @ [Rate_check (user_id_of st) wt, Validate, Sanitize, Size_check] @ net \<and>
          (\<forall>ev \<in> set net. is_network ev) \<and>
          (\<not> gates_pass env st p wt \<longrightarrow> net = [])"
proof (cases "json_dumps_size env (sanitize_payload env p)")
  case (Inl e)
  then show ?thesis
    unfolding try_body_valid [OF rate valid] by (simp add: passed_gates_eq)
next
  case (Inr n)
  show ?thesis
  proof (cases "n > 10 * 1024 * 1024")
    case True
    show ?thesis
      unfolding try_body_oversized [OF rate valid Inr True] by (simp add: passed_gates_eq)
  next
    case small: False
    show ?thesis
    proof (cases "webhook_stats st wt")
      case None
      then have "bump inc_sent wt (passed_gates st wt) = Inl (KeyError wt)"
        by (simp add: bump_def passed_gates_eq)
      with Inr small show ?thesis
        unfolding try_body_valid [OF rate valid] by (simp add: passed_gates_eq)
    next
      case (Some s)
      from small have le: "n \<le> 10 * 1024 * 1024" by simp
      let ?r = "send_attempts env url (sanitize_payload env p) 3 1 [0..<3] []"
      have net: "\<forall>ev \<in> set (snd ?r). is_network ev"
        using send_attempts_network [of "[]" env url "sanitize_payload env p" 3 1 "[0..<3]"]
        by simp
      have "trace (snd (try_body env st p wt url)) =
            trace st @ [Rate_check (user_id_of st) wt, Validate, Sanitize, Size_check] @ snd ?r"
        unfolding try_body_sends [OF rate valid Inr le Some] Let_def
        by (cases "fst ?r") (auto simp: after_response_trace passed_gates_eq)
      moreover have "gates_pass env st p wt"
        using rate valid Inr le by (simp add: gates_pass_def)
      ultimately show ?thesis using net by blast
    qed
  qed
qed

text \<open>
  Claim C3 (gate order), as the source has it. In every call to a configured endpoint the
  gates are evaluated in the order rate check, validation, sanitising, size check, and the
  events of the call are these gates up to the first failing one, followed by network
  events (posts and sleeps) only; when a gate fails nothing follows it, so no later gate
  is evaluated and nothing is sent. The rate check comes first, not fourth.
\<close>

theorem gate_order:
  assumes url: "webhook_urls st (webhook_type_or_selected st arg) = Some url"
  shows "\<exists>net. new_events st (snd (send_to_webhook env st p arg)) =
            gate_events env st p (webhook_type_or_selected st arg) @ net \<and>
          (\<forall>ev \<in> set net. is_network ev) \<and>
          (\<not> gates_pass env st p (webhook_type_or_selected st arg) \<longrightarrow> net = [])"
proof -
  let ?wt = "webhook_type_or_selected st arg"
  show ?thesis
  proof (cases "fst (check_rate_limit env (user_id_of st) ?wt)")
    case False
    then show ?thesis
      unfolding new_events_def send_to_webhook_trace [OF url] try_body_rate_refused [OF False]
      by (simp add: gate_events_def)
  next
    case rate: True
    show ?thesis
    proof (cases "fst (validate_webhook_payload env p)")
      case False
      with rate show ?thesis
        unfolding new_events_def send_to_webhook_trace [OF url]
          try_body_invalid [OF rate False]
        by (simp add: gate_events_def)
    next
      case valid: True
      from try_body_valid_trace [OF rate valid, of url]
      obtain net where
        "trace (snd (try_body env st p ?wt url)) =
           trace st @ [Rate_check (user_id_of st) ?wt, Validate, Sanitize, Size_check] @ net"
        "\<forall>ev \<in> set net. is_network ev"
        "\<not> gates_pass env st p ?wt \<longrightarrow> net = []"
        by blast
      with rate valid show ?thesis
        unfolding new_events_def send_to_webhook_trace [OF url]
        by (simp add: gate_events_def)
    qed
  qed
qed

text \<open>
  With an exhausted limiter and a payload that the validator rejects, the call evaluates
  the rate check only and records a rate-limit refusal: validation is never reached,
  although it would fail.
\<close>

theorem gate_order_counterexample:
  "\<not> fst (validate_webhook_payload refusing_rejecting_env ''{}'') \<and>
   trace (snd (send_to_webhook refusing_rejecting_env initialize_session_state ''{}'' (Some ''audio''))) =
     [Rate_check ''Multi-Webhook User'' ''audio''] \<and>
   map_of (hd (webhook_responses
      (snd (send_to_webhook refusing_rejecting_env initialize_session_state ''{}'' (Some ''audio'')))))
     ''error'' = Some (PyStr ''Rate limit exceeded'')"
proof -
  have refused: "\<not> fst (check_rate_limit refusing_rejecting_env (user_id_of initialize_session_state)
      (webhook_type_or_selected initialize_session_state (Some ''audio'')))"
    by (simp add: refusing_rejecting_env_def fallback_env_def refusing_check_rate_limit_def)
  show ?thesis
    unfolding send_to_webhook_rate_refused [OF initial_audio_url refused]
    by (simp add: record_error_trace record_error_responses error_base_def
          refusing_rejecting_env_def fallback_env_def rejecting_validate_def
          initialize_session_state_def user_id_of_def webhook_type_or_selected_def)
qed

text \<open>The same call, through the theorem: its events are the rate check alone.\<close>

theorem gate_order_witness:
  "new_events initialize_session_state
      (snd (send_to_webhook refusing_rejecting_env initialize_session_state ''{}'' (Some ''audio''))) =
      [Rate_check ''Multi-Webhook User'' ''audio'']"
proof -
  have g: "gate_events refusing_rejecting_env initialize_session_state ''{}''
      (webhook_type_or_selected initialize_session_state (Some ''audio'')) =
      [Rate_check ''Multi-Webhook User'' ''audio'']"
    by (simp add: gate_events_def refusing_rejecting_env_def fallback_env_def
          refusing_check_rate_limit_def initialize_session_state_def user_id_of_def
          webhook_type_or_selected_def)
  have np: "\<not> gates_pass refusing_rejecting_env initialize_session_state ''{}''
      (webhook_type_or_selected initialize_session_state (Some ''audio''))"
    by (simp add: gates_pass_def refusing_rejecting_env_def fallback_env_def
          refusing_check_rate_limit_def)
  show ?thesis
    using gate_order [OF initial_audio_url, of refusing_rejecting_env "''{}''"] g np by auto
qed

lemma upt2: "[0..<2] = [0, Suc 0]"
  by (simp add: upt_rec)

lemma upt3: "[0..<3] = [0, Suc 0, 2]"
  by (simp add: upt_rec)

text \<open>
  What holds of the retry bound. For a payload that passes every gate on a configured
  endpoint with a stats entry, if every send attempt raises a timeout, the call posts
  exactly three times, sleeping 1 and then 2 seconds between the attempts, returns the
  failure triple of the timeout handler and records its entry at the head of the history.
\<close>

lemma timeouts_post_three_times:
  assumes url: "webhook_urls st (webhook_type_or_selected st arg) = Some url"
    and rate: "fst (check_rate_limit env (user_id_of st) (webhook_type_or_selected st arg))"
    and valid: "fst (validate_webhook_payload env p)"
    and size: "json_dumps_size env (sanitize_payload env p) = Inr n" "n \<le> 10 * 1024 * 1024"
    and stats: "webhook_stats st (webhook_type_or_selected st arg) = Some s"
    and timeouts: "\<forall>a<3. requests_post env url (sanitize_payload env p) a = Raises Timeout"
  shows "new_events st (snd (send_to_webhook env st p arg)) =
           [Rate_check (user_id_of st) (webhook_type_or_selected st arg),
            Validate, Sanitize, Size_check,
            Post url 0, Sleep 1, Post url 1, Sleep 2, Post url 2] \<and>
         fst (send_to_webhook env st p arg) =
           Inr (False, Request_timed_out,
                error_base env ''Request timeout'' (webhook_type_or_selected st arg) url @
                  [(''timeout_duration'', PyInt 30)]) \<and>
         webhook_responses (snd (send_to_webhook env st p arg)) =
           (error_base env ''Request timeout'' (webhook_type_or_selected st arg) url @
              [(''timeout_duration'', PyInt 30)]) # webhook_responses st"
proof -
  let ?wt = "webhook_type_or_selected st arg"
  let ?p = "sanitize_payload env p"
  have tf: "\<forall>j<2. transport_failure (requests_post env url ?p j)"
    using timeouts by (simp add: transport_failure_def)
  have att: "send_attempts env url ?p 3 1 [0..<3] [] =
     (Inl Timeout, [Post url 0, Sleep 1, Post url 1, Sleep 2, Post url 2])"
    using attempts_until [of 2 env url ?p, OF _ tf] timeouts by (simp add: upt2)
  have tb: "try_body env st p ?wt url =
     (Inl Timeout,
      (passed_gates st ?wt)\<lparr>webhook_stats := (webhook_stats st)(?wt \<mapsto> inc_sent s),
        trace := trace (passed_gates st ?wt) @
          [Post url 0, Sleep 1, Post url 1, Sleep 2, Post url 2]\<rparr>)"
    unfolding try_body_sends [OF rate valid size stats] Let_def att by simp
  show ?thesis
    unfolding send_to_webhook_configured [OF url] tb
    by (simp add: record_error_def bump_def new_events_def passed_gates_eq error_base_def)
qed

text \<open>
  Claim C2 (retry bound) does not hold of the source in its last part. On the initial
  session with a transport that always times out, the call posts three times and returns
  a failure, but the entry it records has no \<open>attempt_count\<close>: the response path writes
  \<open>attempt + 1\<close> there, the timeout clause leaves it out, and the history view then shows
  one attempt.
\<close>

theorem timeout_entry_lacks_attempt_count:
  "fst (send_to_webhook (fallback_env timeout_transport) initialize_session_state ''{}'' (Some ''audio'')) =
     Inr (False, Request_timed_out,
          [(''error'', PyStr ''Request timeout''),
           (''timestamp'', PyStr ''2024-01-01T00:00:00''),
           (''webhook_type'', PyStr ''audio''),
           (''url'', PyStr ''https://agentonline-u29564.vm.elestio.app/webhook-test/audio-files''),
           (''timeout_duration'', PyInt 30)]) \<and>
   filter is_Post (trace (snd (send_to_webhook (fallback_env timeout_transport)
       initialize_session_state ''{}'' (Some ''audio'')))) =
     [Post ''https://agentonline-u29564.vm.elestio.app/webhook-test/audio-files'' 0,
      Post ''https://agentonline-u29564.vm.elestio.app/webhook-test/audio-files'' 1,
      Post ''https://agentonline-u29564.vm.elestio.app/webhook-test/audio-files'' 2] \<and>
   map_of (hd (webhook_responses (snd (send_to_webhook (fallback_env timeout_transport)
       initialize_session_state ''{}'' (Some ''audio''))))) ''attempt_count'' = None \<and>
   attempts_shown (hd (webhook_responses (snd (send_to_webhook (fallback_env timeout_transport)
       initialize_session_state ''{}'' (Some ''audio''))))) = PyInt 1"
proof -
  have rate: "fst (check_rate_limit (fallback_env timeout_transport)
      (user_id_of initialize_session_state)
      (webhook_type_or_selected initialize_session_state (Some ''audio'')))"
    by (simp add: fallback_env_def fallback_check_rate_limit_def)
  have valid: "fst (validate_webhook_payload (fallback_env timeout_transport) ''{}'')"
    by (simp add: fallback_env_def fallback_validate_def)
  have size: "json_dumps_size (fallback_env timeout_transport)
      (sanitize_payload (fallback_env timeout_transport) ''{}'') = Inr 2"
    by (simp add: fallback_env_def fallback_sanitize_def)
  have timeouts: "\<forall>a<3. requests_post (fallback_env timeout_transport)
      ''https://agentonline-u29564.vm.elestio.app/webhook-test/audio-files''
      (sanitize_payload (fallback_env timeout_transport) ''{}'') a = Raises Timeout"
    by (simp add: fallback_env_def timeout_transport_def)
  have tr: "trace initialize_session_state = []"
    by (simp add: initialize_session_state_def)
  show ?thesis
    using timeouts_post_three_times
      [OF initial_audio_url rate valid size _ initial_audio_stats timeouts]
    by (simp add: new_events_def tr error_base_def attempts_shown_def fallback_env_def
          webhook_type_or_selected_def)
qed

section \<open>Claims on the result of a dispatch\<close>

text \<open>
  Claim C8 (total dispatch) does not hold of the source. When the payload holds a value
  that \<open>json.dumps\<close> cannot encode, the TypeError matches none of the first clauses, and
  evaluating the clause \<open>except json.JSONEncodeError\<close> raises AttributeError, which leaves
  \<open>send_to_webhook\<close>; the final \<open>except Exception\<close> is never reached. A webhook type
  with no configured URL raises KeyError before the \<open>try\<close> is entered.
\<close>

theorem total_dispatch_fails:
  "fst (send_to_webhook unencodable_env initialize_session_state ''{}'' (Some ''audio'')) =
     Inl (AttributeError ''JSONEncodeError'') \<and>
   fst (send_to_webhook (fallback_env timeout_transport) initialize_session_state ''{}'' (Some ''slides'')) =
     Inl (KeyError ''slides'')"
  by (simp add: send_to_webhook_def try_body_def log_event_def Let_def
        unencodable_env_def fallback_env_def
        fallback_check_rate_limit_def fallback_validate_def fallback_sanitize_def
        initialize_session_state_def WEBHOOK_URLS_def user_id_of_def webhook_type_or_selected_def)

section \<open>Claims on the history\<close>

lemma send_to_webhook_all_timeouts:
  assumes url: "webhook_urls st (webhook_type_or_selected st arg) = Some url"
    and rate: "fst (check_rate_limit env (user_id_of st) (webhook_type_or_selected st arg))"
    and valid: "fst (validate_webhook_payload env p)"
    and size: "json_dumps_size env (sanitize_payload env p) = Inr n" "n \<le> 10 * 1024 * 1024"
    and stats: "webhook_stats st (webhook_type_or_selected st arg) = Some s"
    and timeouts: "\<forall>a<3. requests_post env url (sanitize_payload env p) a = Raises Timeout"
  shows "snd (send_to_webhook env st p arg) =
     st\<lparr>webhook_responses :=
          (error_base env ''Request timeout'' (webhook_type_or_selected st arg) url @
             [(''timeout_duration'', PyInt 30)]) # webhook_responses st,
        webhook_stats := (webhook_stats st)
          (webhook_type_or_selected st arg \<mapsto> inc_errors (inc_sent s)),
        trace := trace st @
          [Rate_check (user_id_of st) (webhook_type_or_selected st arg),
           Validate, Sanitize, Size_check,
           Post url 0, Sleep 1, Post url 1, Sleep 2, Post url 2]\<rparr>"
proof -
  let ?wt = "webhook_type_or_selected st arg"
  let ?p = "sanitize_payload env p"
  have tf: "\<forall>j<2. transport_failure (requests_post env url ?p j)"
    using timeouts by (simp add: transport_failure_def)
  have att: "send_attempts env url ?p 3 1 [0..<3] [] =
     (Inl Timeout, [Post url 0, Sleep 1, Post url 1, Sleep 2, Post url 2])"
    using attempts_until [of 2 env url ?p, OF _ tf] timeouts by (simp add: upt2)
  have tb: "try_body env st p ?wt url =
     (Inl Timeout,
      (passed_gates st ?wt)\<lparr>webhook_stats := (webhook_stats st)(?wt \<mapsto> inc_sent s),
        trace := trace (passed_gates st ?wt) @
          [Post url 0, Sleep 1, Post url 1, Sleep 2, Post url 2]\<rparr>)"
    unfolding try_body_sends [OF rate valid size stats] Let_def att by simp
  show ?thesis
    unfolding send_to_webhook_configured [OF url] tb
    by (simp add: record_error_def bump_def passed_gates_eq)
qed

lemma unreachable_step:
  assumes "webhook_urls st ''audio'' = Some url" and "webhook_stats st ''audio'' = Some s"
  shows "\<exists>s'. webhook_urls (snd (send_to_webhook (fallback_env timeout_transport) st ''{}'' (Some ''audio''))) ''audio'' = Some url \<and>
     webhook_stats (snd (send_to_webhook (fallback_env timeout_transport) st ''{}'' (Some ''audio''))) ''audio'' = Some s' \<and>
     length (webhook_responses (snd (send_to_webhook (fallback_env timeout_transport) st ''{}'' (Some ''audio'')))) =
       Suc (length (webhook_responses st))"
proof -
  have wt: "webhook_type_or_selected st (Some ''audio'') = ''audio''"
    by (simp add: webhook_type_or_selected_def)
  have "snd (send_to_webhook (fallback_env timeout_transport) st ''{}'' (Some ''audio'')) =
     st\<lparr>webhook_responses :=
          (error_base (fallback_env timeout_transport) ''Request timeout''
             (webhook_type_or_selected st (Some ''audio'')) url @
             [(''timeout_duration'', PyInt 30)]) # webhook_responses st,
        webhook_stats := (webhook_stats st)
          (webhook_type_or_selected st (Some ''audio'') \<mapsto> inc_errors (inc_sent s)),
        trace := trace st @
          [Rate_check (user_id_of st) (webhook_type_or_selected st (Some ''audio'')),
           Validate, Sanitize, Size_check,
           Post url 0, Sleep 1, Post url 1, Sleep 2, Post url 2]\<rparr>"
    by (rule send_to_webhook_all_timeouts [where n = 2])
       (simp_all add: wt assms fallback_env_def fallback_check_rate_limit_def
          fallback_validate_def fallback_sanitize_def timeout_transport_def)
  then show ?thesis by (simp add: wt assms)
qed

lemma unreachable_calls_grow:
  assumes "webhook_urls st ''audio'' = Some url" and "webhook_stats st ''audio'' = Some s"
  shows "length (webhook_responses (dispatch_all st (replicate n unreachable_call))) =
         length (webhook_responses st) + n"
  using assms
proof (induction n arbitrary: st s)
  case 0
  show ?case by simp
next
  case (Suc n)
  let ?st' = "snd (send_to_webhook (fallback_env timeout_transport) st ''{}'' (Some ''audio''))"
  from unreachable_step [OF Suc.prems] obtain s' where
    "webhook_urls ?st' ''audio'' = Some url" "webhook_stats ?st' ''audio'' = Some s'"
    "length (webhook_responses ?st') = Suc (length (webhook_responses st))"
    by blast
  with Suc.IH [of ?st' s'] show ?case
    by (simp add: unreachable_call_def)
qed

text \<open>The path of a received response does cut the history to 20 entries.\<close>

lemma after_response_capped:
  "length (webhook_responses (snd (after_response env st wt url sc body n a))) \<le> 20"
  by (simp add: after_response_def bump_def Let_def split: option.splits)

text \<open>
  Claim C5 (history cap) does not hold of the source. Only the path of a received response
  cuts the history to 20 entries; the \<open>except\<close> clauses insert their entry and leave the
  list as long as it is. After 21 dispatches to an unreachable endpoint, on the initial
  session, the history holds 21 entries.
\<close>

theorem history_not_capped:
  "length (webhook_responses
     (dispatch_all initialize_session_state (replicate 21 unreachable_call))) = 21"
proof -
  have u: "webhook_urls initialize_session_state ''audio'' =
      Some ''https://agentonline-u29564.vm.elestio.app/webhook-test/audio-files''"
    by (simp add: initialize_session_state_def WEBHOOK_URLS_def)
  have s: "webhook_stats initialize_session_state ''audio'' =
      Some \<lparr>sent = 0, success = 0, errors = 0\<rparr>"
    by (simp add: initialize_session_state_def WEBHOOK_URLS_def)
  show ?thesis
    using unreachable_calls_grow [OF u s, of 21] by (simp add: initialize_session_state_def)
qed

section \<open>Sessions of the same configuration\<close>

lemma same_config_refl: "same_config st st"
  by (simp add: same_config_def)

lemma same_config_trans: "same_config a b \<Longrightarrow> same_config b c \<Longrightarrow> same_config a c"
  by (simp add: same_config_def)

lemma same_config_sym: "same_config a b \<Longrightarrow> same_config b a"
  by (simp add: same_config_def)

lemma same_config_user_id: "same_config st st' \<Longrightarrow> user_id_of st' = user_id_of st"
  by (simp add: same_config_def user_id_of_def)

lemma same_config_stats_None:
  "same_config st st' \<Longrightarrow> (webhook_stats st' w = None) = (webhook_stats st w = None)"
  unfolding same_config_def by (metis domIff)

lemma same_config_trace: "same_config st st' \<Longrightarrow> same_config (st\<lparr>trace := a\<rparr>) (st'\<lparr>trace := b\<rparr>)"
  by (simp add: same_config_def)

lemma same_config_passed_gates:
  "same_config st st' \<Longrightarrow> same_config (passed_gates st w) (passed_gates st' w)"
  by (simp add: same_config_def passed_gates_eq)

text \<open>Each building block gives the same result on sessions of the same configuration.\<close>

lemma record_error_sim:
  assumes "same_config st st'"
  shows "fst (record_error st' w ed m) = fst (record_error st w ed m) \<and>
         same_config (snd (record_error st w ed m)) (snd (record_error st' w ed m))"
proof (cases "webhook_stats st w")
  case None
  with same_config_stats_None [OF assms, of w] have "webhook_stats st' w = None" by simp
  with None assms show ?thesis
    by (simp add: record_error_def bump_def Let_def same_config_def)
next
  case (Some s)
  with same_config_stats_None [OF assms, of w] obtain s' where "webhook_stats st' w = Some s'"
    by auto
  with Some assms show ?thesis
    by (simp add: record_error_def bump_def Let_def same_config_def)
qed

lemma handlers_sim:
  assumes "same_config st st'"
  shows "fst (handlers env st' w url e) = fst (handlers env st w url e) \<and>
         same_config (snd (handlers env st w url e)) (snd (handlers env st' w url e))"
  using record_error_sim [OF assms] assms by (cases e) simp_all

lemma after_response_sim:
  assumes "same_config st st'"
  shows "fst (after_response env st' w url sc body n a) = fst (after_response env st w url sc body n a) \<and>
         same_config (snd (after_response env st w url sc body n a))
                     (snd (after_response env st' w url sc body n a))"
proof (cases "webhook_stats st w")
  case None
  with same_config_stats_None [OF assms, of w] have "webhook_stats st' w = None" by simp
  with None assms show ?thesis
    by (simp add: after_response_def bump_def Let_def same_config_def)
next
  case (Some s)
  with same_config_stats_None [OF assms, of w] obtain s' where "webhook_stats st' w = Some s'"
    by auto
  with Some assms show ?thesis
    by (simp add: after_response_def bump_def Let_def same_config_def)
qed


lemma try_body_sim:
  assumes sc: "same_config st st'"
  shows "fst (try_body env st' p w url) = fst (try_body env st p w url) \<and>
         same_config (snd (try_body env st p w url)) (snd (try_body env st' p w url))"
proof -
  have uid: "user_id_of st' = user_id_of st"
    by (rule same_config_user_id [OF sc])
  show ?thesis
  proof (cases "fst (check_rate_limit env (user_id_of st) w)")
    case False
    then have False': "\<not> fst (check_rate_limit env (user_id_of st') w)" by (simp add: uid)
    show ?thesis
      unfolding try_body_rate_refused [OF False] try_body_rate_refused [OF False']
      using sc by (simp add: uid same_config_def)
  next
    case rate: True
    then have rate': "fst (check_rate_limit env (user_id_of st') w)" by (simp add: uid)
    show ?thesis
    proof (cases "fst (validate_webhook_payload env p)")
      case False
      show ?thesis
        unfolding try_body_invalid [OF rate False] try_body_invalid [OF rate' False]
        using sc by (simp add: uid same_config_def)
    next
      case valid: True
      note tb = try_body_valid [OF rate valid] try_body_valid [OF rate' valid]
      have pg: "same_config (passed_gates st w) (passed_gates st' w)"
        by (rule same_config_passed_gates [OF sc])
      show ?thesis
      proof (cases "json_dumps_size env (sanitize_payload env p)")
        case (Inl e)
        then show ?thesis unfolding tb using pg by simp
      next
        case (Inr n)
        show ?thesis
        proof (cases "n > 10 * 1024 * 1024")
          case True
          show ?thesis
            unfolding try_body_oversized [OF rate valid Inr True]
              try_body_oversized [OF rate' valid Inr True]
            using pg by simp
        next
          case small: False
          then have le: "n \<le> 10 * 1024 * 1024" by simp
          show ?thesis
          proof (cases "webhook_stats st w")
            case None
            with same_config_stats_None [OF sc, of w] have None': "webhook_stats st' w = None"
              by simp
            have "bump inc_sent w (passed_gates st w) = Inl (KeyError w)"
              "bump inc_sent w (passed_gates st' w) = Inl (KeyError w)"
              using None None' by (simp_all add: bump_def passed_gates_eq)
            with Inr small show ?thesis unfolding tb using pg by simp
          next
            case (Some s)
            with same_config_stats_None [OF sc, of w] obtain s' where
              Some': "webhook_stats st' w = Some s'" by auto
            let ?r = "send_attempts env url (sanitize_payload env p) 3 1 [0..<3] []"
            let ?st5 = "(passed_gates st w)\<lparr>webhook_stats := (webhook_stats st)(w \<mapsto> inc_sent s)\<rparr>"
            let ?st5' = "(passed_gates st' w)\<lparr>webhook_stats := (webhook_stats st')(w \<mapsto> inc_sent s')\<rparr>"
            have c5: "same_config (?st5\<lparr>trace := trace ?st5 @ snd ?r\<rparr>)
                                  (?st5'\<lparr>trace := trace ?st5' @ snd ?r\<rparr>)"
              using sc by (simp add: same_config_def passed_gates_eq)
            show ?thesis
            proof (cases "fst ?r")
              case (Inl e)
              then show ?thesis
                unfolding try_body_sends [OF rate valid Inr le Some]
                  try_body_sends [OF rate' valid Inr le Some'] Let_def
                using c5 by simp
            next
              case (Inr res)
              obtain status body a where res: "res = (status, body, a)"
                by (cases res) auto
              show ?thesis
                unfolding try_body_sends [OF rate valid \<open>json_dumps_size env (sanitize_payload env p) = Inr n\<close> le Some]
                  try_body_sends [OF rate' valid \<open>json_dumps_size env (sanitize_payload env p) = Inr n\<close> le Some'] Let_def
                using after_response_sim [OF c5] Inr res by simp
            qed
          qed
        qed
      qed
    qed
  qed
qed

lemma send_to_webhook_sim:
  assumes sc: "same_config st st'" and w: "w \<noteq> []"
  shows "fst (send_to_webhook env st' p (Some w)) = fst (send_to_webhook env st p (Some w)) \<and>
         same_config (snd (send_to_webhook env st p (Some w)))
                     (snd (send_to_webhook env st' p (Some w)))"
proof -
  have wt: "webhook_type_or_selected st (Some w) = w" "webhook_type_or_selected st' (Some w) = w"
    using w by (simp_all add: webhook_type_or_selected_def)
  have urls: "webhook_urls st' w = webhook_urls st w"
    using sc by (simp add: same_config_def)
  show ?thesis
  proof (cases "webhook_urls st w")
    case None
    with urls sc show ?thesis
      by (simp add: send_to_webhook_def wt Let_def)
  next
    case (Some url)
    have u: "webhook_urls st (webhook_type_or_selected st (Some w)) = Some url"
      "webhook_urls st' (webhook_type_or_selected st' (Some w)) = Some url"
      using Some urls by (simp_all add: wt)
    obtain r s1 where tb: "try_body env st p w url = (r, s1)"
      by (cases "try_body env st p w url") auto
    obtain r' s1' where tb': "try_body env st' p w url = (r', s1')"
      by (cases "try_body env st' p w url") auto
    from try_body_sim [OF sc, of env p w url] tb tb'
    have eq: "r' = r" and c1: "same_config s1 s1'" by simp_all
    show ?thesis
      unfolding send_to_webhook_configured [OF u(1)] send_to_webhook_configured [OF u(2)] wt tb tb' eq
      using handlers_sim [OF c1] c1 by (cases r) simp_all
  qed
qed


text \<open>A dispatch leaves the configuration of the session as it was.\<close>

lemma record_error_keeps: "same_config st (snd (record_error st w ed m))"
  by (auto simp: record_error_def bump_def Let_def same_config_def split: option.splits)

lemma handlers_keeps: "same_config st (snd (handlers env st w url e))"
  using record_error_keeps by (cases e) (simp_all add: same_config_refl)

lemma after_response_keeps: "same_config st (snd (after_response env st w url sc body n a))"
  by (auto simp: after_response_def bump_def Let_def same_config_def split: option.splits)

lemma try_body_keeps: "same_config st (snd (try_body env st p w url))"
proof (cases "fst (check_rate_limit env (user_id_of st) w)")
  case False
  show ?thesis
    unfolding try_body_rate_refused [OF False] by (simp add: same_config_def)
next
  case rate: True
  show ?thesis
  proof (cases "fst (validate_webhook_payload env p)")
    case False
    show ?thesis
      unfolding try_body_invalid [OF rate False] by (simp add: same_config_def)
  next
    case valid: True
    have pg: "same_config st (passed_gates st w)"
      by (simp add: same_config_def passed_gates_eq)
    show ?thesis
    proof (cases "json_dumps_size env (sanitize_payload env p)")
      case (Inl e)
      then show ?thesis unfolding try_body_valid [OF rate valid] using pg by simp
    next
      case (Inr n)
      show ?thesis
      proof (cases "n > 10 * 1024 * 1024")
        case True
        show ?thesis unfolding try_body_oversized [OF rate valid Inr True] using pg by simp
      next
        case small: False
        then have le: "n \<le> 10 * 1024 * 1024" by simp
        show ?thesis
        proof (cases "webhook_stats st w")
          case None
          then have "bump inc_sent w (passed_gates st w) = Inl (KeyError w)"
            by (simp add: bump_def passed_gates_eq)
          with Inr small show ?thesis unfolding try_body_valid [OF rate valid] using pg by simp
        next
          case (Some s)
          let ?r = "send_attempts env url (sanitize_payload env p) 3 1 [0..<3] []"
          let ?st5 = "(passed_gates st w)\<lparr>webhook_stats := (webhook_stats st)(w \<mapsto> inc_sent s)\<rparr>"
          have c5: "same_config st (?st5\<lparr>trace := trace ?st5 @ snd ?r\<rparr>)"
            using Some by (auto simp: same_config_def passed_gates_eq)
          show ?thesis
          proof (cases "fst ?r")
            case (Inl e)
            then show ?thesis
              unfolding try_body_sends [OF rate valid Inr le Some] Let_def using c5 by simp
          next
            case (Inr res)
            obtain status body a where res: "res = (status, body, a)"
              by (cases res) auto
            have "same_config (?st5\<lparr>trace := trace ?st5 @ snd ?r\<rparr>)
              (snd (after_response env (?st5\<lparr>trace := trace ?st5 @ snd ?r\<rparr>) w url status body n a))"
              by (rule after_response_keeps)
            with c5 have "same_config st
              (snd (after_response env (?st5\<lparr>trace := trace ?st5 @ snd ?r\<rparr>) w url status body n a))"
              by (rule same_config_trans)
            then show ?thesis
              unfolding try_body_sends [OF rate valid \<open>json_dumps_size env (sanitize_payload env p) = Inr n\<close> le Some] Let_def
              using Inr res by simp
          qed
        qed
      qed
    qed
  qed
qed

lemma send_to_webhook_keeps: "same_config st (snd (send_to_webhook env st p arg))"
proof (cases "webhook_urls st (webhook_type_or_selected st arg)")
  case None
  then show ?thesis by (simp add: send_to_webhook_def Let_def same_config_refl)
next
  case (Some url)
  obtain r s1 where tb: "try_body env st p (webhook_type_or_selected st arg) url = (r, s1)"
    by (cases "try_body env st p (webhook_type_or_selected st arg) url") auto
  with try_body_keeps [of st env p "webhook_type_or_selected st arg" url]
  have c1: "same_config st s1" by simp
  show ?thesis
    unfolding send_to_webhook_configured [OF Some] tb
    using c1 same_config_trans [OF c1 handlers_keeps] by (cases r) simp_all
qed

lemma send_one_keeps: "same_config st (snd (send_one env st p w))"
  using send_to_webhook_keeps [of st env p "Some w"]
  by (auto simp: send_one_def same_config_refl split: prod.splits sum.splits)

lemma send_one_sim:
  assumes "same_config st st'"
  shows "fst (send_one env st' p w) = fst (send_one env st p w)"
proof (cases "w \<in> set CONTENT_TYPES")
  case False
  then show ?thesis by (simp add: send_one_def)
next
  case True
  then have "w \<noteq> []" by (auto simp: CONTENT_TYPES_def)
  from send_to_webhook_sim [OF assms this, of env p]
  have "fst (send_to_webhook env st' p (Some w)) = fst (send_to_webhook env st p (Some w))"
    by simp
  then show ?thesis
    using True
    by (cases "send_to_webhook env st p (Some w)"; cases "send_to_webhook env st' p (Some w)")
       (auto simp: send_one_def split: sum.splits)
qed

lemma send_each_results:
  assumes "same_config st0 st"
  shows "\<forall>w. fst (send_each env p wts res st) w =
           (if w \<in> set wts then Some (fst (send_one env st0 p w)) else res w)"
  using assms
proof (induction wts arbitrary: res st)
  case Nil
  show ?case by simp
next
  case (Cons x wts)
  obtain r st' where so: "send_one env st p x = (r, st')"
    by (cases "send_one env st p x") auto
  have r: "r = fst (send_one env st0 p x)"
    using send_one_sim [OF Cons.prems, of env p x] so by simp
  have "same_config st st'"
    using send_one_keeps [of st env p x] so by simp
  with Cons.prems have "same_config st0 st'" by (rule same_config_trans)
  then have IH: "\<forall>w. fst (send_each env p wts (res(x \<mapsto> r)) st') w =
      (if w \<in> set wts then Some (fst (send_one env st0 p w)) else (res(x \<mapsto> r)) w)"
    by (rule Cons.IH)
  have step: "send_each env p (x # wts) res st = send_each env p wts (res(x \<mapsto> r)) st'"
    by (simp add: so)
  show ?case
    unfolding step
  proof
    fix w
    show "fst (send_each env p wts (res(x \<mapsto> r)) st') w =
        (if w \<in> set (x # wts) then Some (fst (send_one env st0 p w)) else res w)"
      using IH [rule_format, of w] r by (cases "w = x") auto
  qed
qed

section \<open>The events of a dispatch\<close>

lemma try_body_trace_eq:
  "trace (snd (try_body env st p wt url)) =
     trace st @ gate_events env st p wt @ network_events env st p wt url"
proof (cases "fst (check_rate_limit env (user_id_of st) wt)")
  case False
  then show ?thesis
    unfolding try_body_rate_refused [OF False]
    by (simp add: gate_events_def network_events_def gates_pass_def)
next
  case rate: True
  show ?thesis
  proof (cases "fst (validate_webhook_payload env p)")
    case False
    with rate show ?thesis
      unfolding try_body_invalid [OF rate False]
      by (simp add: gate_events_def network_events_def gates_pass_def)
  next
    case valid: True
    have ge: "gate_events env st p wt =
        [Rate_check (user_id_of st) wt, Validate, Sanitize, Size_check]"
      using rate valid by (simp add: gate_events_def)
    show ?thesis
    proof (cases "json_dumps_size env (sanitize_payload env p)")
      case (Inl e)
      then show ?thesis
        unfolding try_body_valid [OF rate valid] ge
        by (simp add: passed_gates_eq network_events_def gates_pass_def)
    next
      case (Inr n)
      show ?thesis
      proof (cases "n > 10 * 1024 * 1024")
        case True
        with Inr show ?thesis
          unfolding try_body_oversized [OF rate valid Inr True] ge
          by (simp add: passed_gates_eq network_events_def gates_pass_def)
      next
        case small: False
        then have le: "n \<le> 10 * 1024 * 1024" by simp
        have gp: "gates_pass env st p wt"
          using rate valid Inr le by (simp add: gates_pass_def)
        show ?thesis
        proof (cases "webhook_stats st wt")
          case None
          then have "bump inc_sent wt (passed_gates st wt) = Inl (KeyError wt)"
            by (simp add: bump_def passed_gates_eq)
          with Inr small None show ?thesis
            unfolding try_body_valid [OF rate valid] ge
            by (simp add: passed_gates_eq network_events_def)
        next
          case (Some s)
          let ?r = "send_attempts env url (sanitize_payload env p) 3 1 [0..<3] []"
          have ne: "network_events env st p wt url = snd ?r"
            using gp Some by (simp add: network_events_def)
          show ?thesis
            unfolding try_body_sends [OF rate valid Inr le Some] Let_def ge ne
            by (cases "fst ?r") (auto simp: after_response_trace passed_gates_eq)
        qed
      qed
    qed
  qed
qed

lemma send_to_webhook_trace_eq:
  assumes "webhook_urls st (webhook_type_or_selected st arg) = Some url"
  shows "trace (snd (send_to_webhook env st p arg)) =
     trace st @ gate_events env st p (webhook_type_or_selected st arg) @
       network_events env st p (webhook_type_or_selected st arg) url"
  unfolding send_to_webhook_trace [OF assms] by (rule try_body_trace_eq)

text \<open>The events of a dispatch depend on the configuration of the session only.\<close>

lemma events_same_config:
  assumes "same_config st st'"
  shows "gate_events env st' p w = gate_events env st p w"
    and "network_events env st' p w url = network_events env st p w url"
  using same_config_user_id [OF assms] same_config_stats_None [OF assms, of w]
  by (simp_all add: gate_events_def network_events_def gates_pass_def)

lemma send_one_trace:
  "trace (snd (send_one env st p w)) = trace st @ new_events st (snd (send_one env st p w))"
proof (cases "w \<in> set CONTENT_TYPES")
  case False
  then show ?thesis by (simp add: send_one_def new_events_def)
next
  case True
  have snd_eq: "snd (send_one env st p w) = snd (send_to_webhook env st p (Some w))"
    using True by (simp add: send_one_def split: prod.splits sum.splits)
  show ?thesis
  proof (cases "webhook_urls st (webhook_type_or_selected st (Some w))")
    case None
    then show ?thesis
      unfolding snd_eq by (simp add: send_to_webhook_def Let_def new_events_def)
  next
    case (Some url)
    show ?thesis
      unfolding snd_eq new_events_def send_to_webhook_trace_eq [OF Some] by simp
  qed
qed

lemma send_one_events_sim:
  assumes sc: "same_config st st'"
  shows "new_events st' (snd (send_one env st' p w)) = new_events st (snd (send_one env st p w))"
proof (cases "w \<in> set CONTENT_TYPES")
  case False
  then show ?thesis by (simp add: send_one_def new_events_def)
next
  case True
  then have w: "w \<noteq> []" by (auto simp: CONTENT_TYPES_def)
  have wt: "webhook_type_or_selected st (Some w) = w" "webhook_type_or_selected st' (Some w) = w"
    using w by (simp_all add: webhook_type_or_selected_def)
  have snd_eq: "snd (send_one env st p w) = snd (send_to_webhook env st p (Some w))"
    "snd (send_one env st' p w) = snd (send_to_webhook env st' p (Some w))"
    using True by (simp_all add: send_one_def split: prod.splits sum.splits)
  have urls: "webhook_urls st' w = webhook_urls st w"
    using sc by (simp add: same_config_def)
  show ?thesis
  proof (cases "webhook_urls st w")
    case None
    with urls show ?thesis
      unfolding snd_eq by (simp add: send_to_webhook_def Let_def new_events_def wt)
  next
    case (Some url)
    have u: "webhook_urls st (webhook_type_or_selected st (Some w)) = Some url"
      "webhook_urls st' (webhook_type_or_selected st' (Some w)) = Some url"
      using Some urls by (simp_all add: wt)
    show ?thesis
      unfolding snd_eq new_events_def send_to_webhook_trace_eq [OF u(1)]
        send_to_webhook_trace_eq [OF u(2)] wt
      using events_same_config(1) [OF sc, of env p w]
        events_same_config(2) [OF sc, of env p w url] by simp
  qed
qed

lemma send_each_state:
  "snd (send_each env p wts res st) = foldl (\<lambda>s w. snd (send_one env s p w)) st wts"
proof (induction wts arbitrary: res st)
  case Nil
  show ?case by simp
next
  case (Cons x wts)
  obtain r st' where so: "send_one env st p x = (r, st')"
    by (cases "send_one env st p x") auto
  have step: "send_each env p (x # wts) res st = send_each env p wts (res(x \<mapsto> r)) st'"
    by (simp add: so)
  show ?case
    unfolding step Cons.IH by (simp add: so)
qed

lemma send_each_trace:
  assumes "same_config st0 st"
  shows "trace (snd (send_each env p wts res st)) =
     trace st @ concat (map (\<lambda>w. new_events st0 (snd (send_one env st0 p w))) wts)"
  using assms
proof (induction wts arbitrary: res st)
  case Nil
  show ?case by simp
next
  case (Cons x wts)
  obtain r st' where so: "send_one env st p x = (r, st')"
    by (cases "send_one env st p x") auto
  have "same_config st st'"
    using send_one_keeps [of st env p x] so by simp
  with Cons.prems have sc': "same_config st0 st'" by (rule same_config_trans)
  have tr: "trace st' = trace st @ new_events st0 (snd (send_one env st0 p x))"
    using send_one_trace [of env st p x] send_one_events_sim [OF Cons.prems, of env p x] so
    by simp
  have step: "send_each env p (x # wts) res st = send_each env p wts (res(x \<mapsto> r)) st'"
    by (simp add: so)
  show ?case
    unfolding step Cons.IH [OF sc'] tr by simp
qed

lemma fan_out_events:
  assumes "webhook_types \<noteq> []" and "fst (validate_webhook_payload env p)"
  shows "new_events st (snd (send_to_multiple_webhooks env st p webhook_types)) =
     Validate # concat (map (\<lambda>w. new_events st (snd (send_one env st p w))) webhook_types)"
proof -
  have sc: "same_config st (log_event Validate st)"
    by (simp add: same_config_def log_event_def)
  have "snd (send_to_multiple_webhooks env st p webhook_types) =
      snd (send_each env p webhook_types Map.empty (log_event Validate st))"
    using assms by (simp add: send_to_multiple_webhooks_def Let_def split: prod.splits)
  then have "trace (snd (send_to_multiple_webhooks env st p webhook_types)) =
      trace st @ Validate #
        concat (map (\<lambda>w. new_events st (snd (send_one env st p w))) webhook_types)"
    using send_each_trace [OF sc, of env p webhook_types Map.empty]
    by (simp add: log_event_def)
  then show ?thesis
    by (simp add: new_events_def)
qed

lemma fan_out_state:
  assumes "webhook_types \<noteq> []" and "fst (validate_webhook_payload env p)"
  shows "snd (send_to_multiple_webhooks env st p webhook_types) =
     foldl (\<lambda>s w. snd (send_one env s p w)) (log_event Validate st) webhook_types"
proof -
  have "snd (send_to_multiple_webhooks env st p webhook_types) =
      snd (send_each env p webhook_types Map.empty (log_event Validate st))"
    using assms by (simp add: send_to_multiple_webhooks_def Let_def split: prod.splits)
  then show ?thesis by (simp add: send_each_state)
qed

section \<open>Claims on the fan-out\<close>

lemma map_of_const:
  "map_of (map (\<lambda>w. (w, c)) ws) w = (if w \<in> set ws then Some c else None)"
  by (induction ws) auto

lemma audio_alone:
  "fst (fst (send_one (fallback_env split_transport) initialize_session_state ''{}'' ''audio'')) = False"
  by (simp add: send_one_def CONTENT_TYPES_def send_to_webhook_def try_body_def record_error_def
        bump_def error_base_def log_event_def Let_def upt3 fallback_env_def split_transport_def
        fallback_check_rate_limit_def fallback_validate_def fallback_sanitize_def
        initialize_session_state_def WEBHOOK_URLS_def user_id_of_def webhook_type_or_selected_def
        inc_sent_def inc_errors_def)

lemma books_alone:
  "fst (fst (send_one (fallback_env split_transport) initialize_session_state ''{}'' ''books'')) = True"
  by (simp add: send_one_def CONTENT_TYPES_def send_to_webhook_def try_body_def
        after_response_def response_data_def
        bump_def log_event_def Let_def upt3 fallback_env_def split_transport_def
        fallback_check_rate_limit_def fallback_validate_def fallback_sanitize_def
        initialize_session_state_def WEBHOOK_URLS_def user_id_of_def webhook_type_or_selected_def
        inc_sent_def inc_success_def)

lemma audio_alone_events:
  "new_events initialize_session_state
     (snd (send_one (fallback_env split_transport) initialize_session_state ''{}'' ''audio'')) =
   [Rate_check ''Multi-Webhook User'' ''audio'', Validate, Sanitize, Size_check,
    Post ''https://agentonline-u29564.vm.elestio.app/webhook-test/audio-files'' 0, Sleep 1,
    Post ''https://agentonline-u29564.vm.elestio.app/webhook-test/audio-files'' 1, Sleep 2,
    Post ''https://agentonline-u29564.vm.elestio.app/webhook-test/audio-files'' 2]"
  by (simp add: new_events_def send_one_def CONTENT_TYPES_def send_to_webhook_def try_body_def
        record_error_def bump_def error_base_def log_event_def Let_def upt3 fallback_env_def
        split_transport_def fallback_check_rate_limit_def fallback_validate_def
        fallback_sanitize_def initialize_session_state_def WEBHOOK_URLS_def user_id_of_def
        webhook_type_or_selected_def inc_sent_def inc_errors_def)

lemma books_alone_events:
  "new_events initialize_session_state
     (snd (send_one (fallback_env split_transport) initialize_session_state ''{}'' ''books'')) =
   [Rate_check ''Multi-Webhook User'' ''books'', Validate, Sanitize, Size_check,
    Post ''https://agentonline-u29564.vm.elestio.app/webhook-test/books-content'' 0]"
  by (simp add: new_events_def send_one_def CONTENT_TYPES_def send_to_webhook_def try_body_def
        after_response_def response_data_def bump_def log_event_def Let_def upt3
        fallback_env_def split_transport_def fallback_check_rate_limit_def
        fallback_validate_def fallback_sanitize_def initialize_session_state_def
        WEBHOOK_URLS_def user_id_of_def webhook_type_or_selected_def inc_sent_def
        inc_success_def)

lemma send_one_result:
  "fst (send_one env st p w) =
     (if w \<in> set CONTENT_TYPES then alone_result env st p w
      else (False, Invalid_webhook_type w, [(''error'', PyStr ''Invalid webhook type'')]))"
  by (simp add: send_one_def alone_result_def split: prod.splits sum.splits)

lemma send_one_session:
  "snd (send_one env st p w) =
     (if w \<in> set CONTENT_TYPES then snd (send_to_webhook env st p (Some w)) else st)"
  by (simp add: send_one_def split: prod.splits sum.splits)

lemma send_one_events:
  "new_events st (snd (send_one env st p w)) =
     (if w \<in> set CONTENT_TYPES then alone_events env st p w else [])"
  by (simp add: send_one_session alone_events_def new_events_def)

text \<open>
  Claim C6 (fan-out), as the source has it. For a non-empty list of requested types,
  \<open>send_to_multiple_webhooks\<close> validates the payload once before any endpoint is
  dispatched. If that validation fails, every requested type gets the same failure result
  and the session is left as it was but for that one validation: nothing is dispatched.
  Otherwise every requested type that is a content type is dispatched in turn with
  \<open>send_to_webhook\<close>, which validates the payload again as its own gate (any other type is
  recorded as invalid and skipped): the session is the one that these dispatches leave
  one after the other, the events of the call are the first validation followed by the
  events that dispatching to each type alone, on the starting session, produces, and the
  result recorded for each requested type is the result of dispatching to that type alone
  (with an exception turned into that endpoint's failure). What happens at another
  endpoint does not block or change it.
\<close>

theorem fan_out_dispatch:
  assumes "webhook_types \<noteq> []"
  shows "(\<not> fst (validate_webhook_payload env p) \<longrightarrow>
           (\<exists>res. send_to_multiple_webhooks env st p webhook_types =
                    (Results res, log_event Validate st) \<and>
              (\<forall>w. res w =
                 (if w \<in> set webhook_types
                  then Some (False,
                         Multi_validation_failed (take 3 (snd (validate_webhook_payload env p))),
                         [(''validation_errors'', PyList (snd (validate_webhook_payload env p)))])
                  else None)))) \<and>
         (fst (validate_webhook_payload env p) \<longrightarrow>
           (\<exists>res. fst (send_to_multiple_webhooks env st p webhook_types) = Results res \<and>
              (\<forall>w. res w =
                 (if w \<in> set webhook_types
                  then Some (if w \<in> set CONTENT_TYPES then alone_result env st p w
                             else (False, Invalid_webhook_type w,
                                   [(''error'', PyStr ''Invalid webhook type'')]))
                  else None))) \<and>
           snd (send_to_multiple_webhooks env st p webhook_types) =
             foldl (\<lambda>s w. if w \<in> set CONTENT_TYPES
                           then snd (send_to_webhook env s p (Some w)) else s)
               (log_event Validate st) webhook_types \<and>
           new_events st (snd (send_to_multiple_webhooks env st p webhook_types)) =
             Validate #
               concat (map (\<lambda>w. if w \<in> set CONTENT_TYPES then alone_events env st p w else [])
                 webhook_types))"
proof (cases "fst (validate_webhook_payload env p)")
  case False
  with assms show ?thesis
    by (simp add: send_to_multiple_webhooks_def Let_def map_of_const)
next
  case True
  have sc: "same_config st (log_event Validate st)"
    by (simp add: same_config_def log_event_def)
  obtain res st' where se: "send_each env p webhook_types Map.empty (log_event Validate st) = (res, st')"
    by (cases "send_each env p webhook_types Map.empty (log_event Validate st)") auto
  from send_each_results [OF sc, of env p webhook_types Map.empty] se
  have "\<forall>w. res w = (if w \<in> set webhook_types then Some (fst (send_one env st p w)) else None)"
    by simp
  moreover have "fst (send_to_multiple_webhooks env st p webhook_types) = Results res"
    using assms True se by (simp add: send_to_multiple_webhooks_def Let_def)
  ultimately have results: "\<exists>res. fst (send_to_multiple_webhooks env st p webhook_types) = Results res \<and>
      (\<forall>w. res w =
         (if w \<in> set webhook_types
          then Some (if w \<in> set CONTENT_TYPES then alone_result env st p w
                     else (False, Invalid_webhook_type w,
                           [(''error'', PyStr ''Invalid webhook type'')]))
          else None))"
    unfolding send_one_result by blast
  have session: "snd (send_to_multiple_webhooks env st p webhook_types) =
      foldl (\<lambda>s w. if w \<in> set CONTENT_TYPES
                    then snd (send_to_webhook env s p (Some w)) else s)
        (log_event Validate st) webhook_types"
    using fan_out_state [OF assms True, of st] unfolding send_one_session .
  have events: "new_events st (snd (send_to_multiple_webhooks env st p webhook_types)) =
      Validate #
        concat (map (\<lambda>w. if w \<in> set CONTENT_TYPES then alone_events env st p w else [])
          webhook_types)"
    using fan_out_events [OF assms True, of st] unfolding send_one_events .
  show ?thesis
    using True results session events by simp
qed

text \<open>
  Dispatching a valid payload to audio and books on the initial session: the validator
  is evaluated three times, once by the fan-out and once by each dispatch.
\<close>

theorem fan_out_dispatch_counterexample:
  "fst (validate_webhook_payload (fallback_env split_transport) ''{}'') \<and>
   length (filter is_Validate
     (new_events initialize_session_state
        (snd (send_to_multiple_webhooks (fallback_env split_transport) initialize_session_state
           ''{}'' [''audio'', ''books''])))) = 3"
proof -
  have valid: "fst (validate_webhook_payload (fallback_env split_transport) ''{}'')"
    by (simp add: fallback_env_def fallback_validate_def)
  have ne: "[''audio'', ''books''] \<noteq> []" by simp
  show ?thesis
    unfolding fan_out_events [OF ne valid]
    using valid by (simp add: audio_alone_events books_alone_events)
qed

text \<open>
  The same call, where the audio endpoint refuses every connection and the books endpoint
  answers 200: failure for audio, success for books, and the events of the call are the
  first validation, the three attempts on audio and the one post to books.
\<close>

theorem fan_out_dispatch_witness:
  "(case fst (send_to_multiple_webhooks (fallback_env split_transport) initialize_session_state
             ''{}'' [''audio'', ''books'']) of
      No_webhook_types \<Rightarrow> False
    | Results res \<Rightarrow>
        map_option fst (res ''audio'') = Some False \<and>
        map_option fst (res ''books'') = Some True) \<and>
   filter is_Post (new_events initialize_session_state
      (snd (send_to_multiple_webhooks (fallback_env split_transport) initialize_session_state
         ''{}'' [''audio'', ''books'']))) =
     [Post ''https://agentonline-u29564.vm.elestio.app/webhook-test/audio-files'' 0,
      Post ''https://agentonline-u29564.vm.elestio.app/webhook-test/audio-files'' 1,
      Post ''https://agentonline-u29564.vm.elestio.app/webhook-test/audio-files'' 2,
      Post ''https://agentonline-u29564.vm.elestio.app/webhook-test/books-content'' 0]"
proof -
  have valid: "fst (validate_webhook_payload (fallback_env split_transport) ''{}'')"
    by (simp add: fallback_env_def fallback_validate_def)
  have ne: "[''audio'', ''books''] \<noteq> []" by simp
  have ct: "''audio'' \<in> set CONTENT_TYPES" "''books'' \<in> set CONTENT_TYPES"
    by (simp_all add: CONTENT_TYPES_def)
  note inst = fan_out_dispatch [OF ne, of "fallback_env split_transport" "''{}''"
      initialize_session_state]
  from inst valid obtain res where
    r: "fst (send_to_multiple_webhooks (fallback_env split_transport) initialize_session_state
             ''{}'' [''audio'', ''books'']) = Results res"
    and each: "\<forall>w. res w = (if w \<in> set [''audio'', ''books'']
        then Some (if w \<in> set CONTENT_TYPES
                   then alone_result (fallback_env split_transport) initialize_session_state ''{}'' w
                   else (False, Invalid_webhook_type w, [(''error'', PyStr ''Invalid webhook type'')]))
        else None)"
    by blast
  from inst valid have ev: "new_events initialize_session_state
      (snd (send_to_multiple_webhooks (fallback_env split_transport) initialize_session_state
         ''{}'' [''audio'', ''books''])) =
      Validate # concat (map (\<lambda>w. if w \<in> set CONTENT_TYPES
          then alone_events (fallback_env split_transport) initialize_session_state ''{}'' w
          else [])
        [''audio'', ''books''])"
    by blast
  have a: "alone_result (fallback_env split_transport) initialize_session_state ''{}'' ''audio'' =
      fst (send_one (fallback_env split_transport) initialize_session_state ''{}'' ''audio'')"
    and b: "alone_result (fallback_env split_transport) initialize_session_state ''{}'' ''books'' =
      fst (send_one (fallback_env split_transport) initialize_session_state ''{}'' ''books'')"
    and ea: "alone_events (fallback_env split_transport) initialize_session_state ''{}'' ''audio'' =
      new_events initialize_session_state
        (snd (send_one (fallback_env split_transport) initialize_session_state ''{}'' ''audio''))"
    and eb: "alone_events (fallback_env split_transport) initialize_session_state ''{}'' ''books'' =
      new_events initialize_session_state
        (snd (send_one (fallback_env split_transport) initialize_session_state ''{}'' ''books''))"
    using ct by (simp_all add: send_one_result send_one_events)
  have "res ''audio'' = Some (fst (send_one (fallback_env split_transport) initialize_session_state ''{}'' ''audio''))"
    "res ''books'' = Some (fst (send_one (fallback_env split_transport) initialize_session_state ''{}'' ''books''))"
    using each ct a b by simp_all
  then show ?thesis
    unfolding r ev using audio_alone books_alone ct
    by (simp add: ea eb audio_alone_events books_alone_events)
qed

section \<open>Claims on the project page\<close>

text \<open>With at least one column, building the row raises at the first column.\<close>

lemma build_new_row_raises:
  "build_new_row form_data (col # cols) =
     Inl (TypeError ''isinstance() arg 2 must be a type, a tuple of types, or a union'')"
  by (simp add: datetime_def Let_def)

text \<open>
  Claim C10 (Add Project form). For a submitted form that passes the required-fields
  check, on a loaded table with at least one column, building the new row evaluates
  \<open>isinstance(value, datetime.date)\<close> with the method \<open>date\<close> of the imported class as its
  second argument, which raises TypeError whatever the value is. The handler shows the
  error, and \<open>append_row\<close> is not reached: no call is made on the sheets manager and the
  manager is left as it was.
\<close>

theorem add_project_never_appends:
  assumes "project_data s = Some df" and "columns df \<noteq> []"
    and "missing_fields form_data = []"
  shows "render_add_project_tab s form_data True now loaded_at =
           s\<lparr>ui := ui s @ [Error_adding_project
              (TypeError ''isinstance() arg 2 must be a type, a tuple of types, or a union'')]\<rparr> \<and>
         calls (render_add_project_tab s form_data True now loaded_at) = calls s \<and>
         manager (render_add_project_tab s form_data True now loaded_at) = manager s"
proof -
  obtain col cols where "columns df = col # cols"
    using assms(2) by (cases "columns df") auto
  then have "build_new_row form_data (columns df) =
     Inl (TypeError ''isinstance() arg 2 must be a type, a tuple of types, or a union'')"
    by (simp only: build_new_row_raises)
  with assms(1,3) show ?thesis
    by (simp add: render_add_project_tab_def show_msgs_def)
qed

text \<open>The sample table with every required field filled in: the error, and no call.\<close>

theorem add_project_never_appends_witness:
  "missing_fields sample_form = [] \<and>
   calls (render_add_project_tab sample_page sample_form True 1000 2000) = [] \<and>
   ui (render_add_project_tab sample_page sample_form True 1000 2000) =
     [Error_adding_project
        (TypeError ''isinstance() arg 2 must be a type, a tuple of types, or a union'')]"
proof -
  have m: "missing_fields sample_form = []"
    by (simp add: missing_fields_def required_fields_def sample_form_def)
  have d: "project_data sample_page = Some sample_project_data"
    by (simp add: sample_page_def)
  have c: "columns sample_project_data \<noteq> []"
    by (simp add: sample_project_data_def)
  show ?thesis
    using add_project_never_appends [OF d c m, of 1000 2000] m
    by (simp add: sample_page_def)
qed

section \<open>Claims on the sheet cache\<close>

lemma get_sheet_data_miss:
  assumes "\<not> (use_cache \<and> fresh c (sid, ws) now)" and "remote c (sid, ws) = Some tbl"
  shows "get_sheet_data c sid ws use_cache now =
     (Inr (normalize_headers tbl),
      c\<lparr>entries := (entries c)((sid, ws) \<mapsto> (normalize_headers tbl, now)),
        fetches := fetches c + 1\<rparr>)"
  using assms by (auto simp: get_sheet_data_def)

lemma get_sheet_data_hit:
  assumes "entries c (sid, ws) = Some (tbl, fetched_at)" and "now - fetched_at < TTL"
  shows "get_sheet_data c sid ws True now = (Inr tbl, c)"
  using assms by (simp add: get_sheet_data_def fresh_def)

lemma not_fresh_after_invalidate:
  "\<not> fresh (invalidate c (Some k)) k now"
  by (simp add: fresh_def invalidate_def)

lemma warm_manager_eq:
  "warm_manager =
     \<lparr>entries = [(''sheet1'', None) \<mapsto> (normalize_headers sample_project_data, 0)],
      remote = [(''sheet1'', None) \<mapsto> sample_project_data],
      fetches = 1\<rparr>"
  by (simp add: warm_manager_def get_sheet_data_def sample_manager_def fresh_def)

text \<open>
  Claim C1 (write invalidation), on the sheet cache as the spec describes it. When
  \<open>append_row\<close> or \<open>update_sheet_data\<close> returns success, the cache has no entry for the
  key, and the next read of the same key, at any time and with or without \<open>use_cache\<close>,
  fetches from the remote source once and returns the table as written (with the row
  appended, or the table given).
\<close>

theorem write_invalidation:
  "(append_row c sid row ws = (True, c') \<longrightarrow>
      entries c' (sid, ws) = None \<and>
      (\<exists>tbl. remote c (sid, ws) = Some tbl \<and>
         (\<forall>use_cache now.
            fst (get_sheet_data c' sid ws use_cache now) =
              Inr (normalize_headers (tbl\<lparr>rows := rows tbl @ [row]\<rparr>)) \<and>
            fetches (snd (get_sheet_data c' sid ws use_cache now)) = fetches c' + 1))) \<and>
   (update_sheet_data c sid df ws = (True, c') \<longrightarrow>
      entries c' (sid, ws) = None \<and>
      (\<forall>use_cache now.
         fst (get_sheet_data c' sid ws use_cache now) = Inr (normalize_headers df) \<and>
         fetches (snd (get_sheet_data c' sid ws use_cache now)) = fetches c' + 1))"
proof (intro conjI impI)
  assume a: "append_row c sid row ws = (True, c')"
  then obtain tbl where tbl: "remote c (sid, ws) = Some tbl"
    and c': "c' = invalidate
       (c\<lparr>remote := (remote c)((sid, ws) \<mapsto> tbl\<lparr>rows := rows tbl @ [row]\<rparr>)\<rparr>) (Some (sid, ws))"
    by (auto simp: append_row_def split: option.splits)
  show "entries c' (sid, ws) = None"
    by (simp add: c' invalidate_def)
  have r: "remote c' (sid, ws) = Some (tbl\<lparr>rows := rows tbl @ [row]\<rparr>)"
    by (simp add: c' invalidate_def)
  have nf: "\<And>use_cache now. \<not> (use_cache \<and> fresh c' (sid, ws) now)"
    unfolding c' using not_fresh_after_invalidate by blast
  show "\<exists>tbl. remote c (sid, ws) = Some tbl \<and>
         (\<forall>use_cache now.
            fst (get_sheet_data c' sid ws use_cache now) =
              Inr (normalize_headers (tbl\<lparr>rows := rows tbl @ [row]\<rparr>)) \<and>
            fetches (snd (get_sheet_data c' sid ws use_cache now)) = fetches c' + 1)"
    using tbl get_sheet_data_miss [OF nf r] by simp
next
  assume u: "update_sheet_data c sid df ws = (True, c')"
  then obtain tbl where tbl: "remote c (sid, ws) = Some tbl"
    and c': "c' = invalidate (c\<lparr>remote := (remote c)((sid, ws) \<mapsto> df)\<rparr>) (Some (sid, ws))"
    by (auto simp: update_sheet_data_def split: option.splits)
  show "entries c' (sid, ws) = None"
    by (simp add: c' invalidate_def)
  have r: "remote c' (sid, ws) = Some df"
    by (simp add: c' invalidate_def)
  have nf: "\<And>use_cache now. \<not> (use_cache \<and> fresh c' (sid, ws) now)"
    unfolding c' using not_fresh_after_invalidate by blast
  show "\<forall>use_cache now.
         fst (get_sheet_data c' sid ws use_cache now) = Inr (normalize_headers df) \<and>
         fetches (snd (get_sheet_data c' sid ws use_cache now)) = fetches c' + 1"
    using get_sheet_data_miss [OF nf r] by simp
qed

text \<open>
  On a manager whose entry for the sheet is still fresh: after a successful append, and
  after a successful update, the next cached read fetches again (the second fetch).
\<close>

theorem write_invalidation_witness:
  "fst (append_row warm_manager ''sheet1'' [Text ''P1''] None) = True \<and>
   fresh warm_manager (''sheet1'', None) 1 \<and>
   fetches (snd (get_sheet_data (snd (append_row warm_manager ''sheet1'' [Text ''P1''] None))
      ''sheet1'' None True 1)) = 2 \<and>
   fst (update_sheet_data warm_manager ''sheet1'' sample_project_data None) = True \<and>
   fetches (snd (get_sheet_data
      (snd (update_sheet_data warm_manager ''sheet1'' sample_project_data None))
      ''sheet1'' None True 1)) = 2"
proof -
  have a: "append_row warm_manager ''sheet1'' [Text ''P1''] None =
      (True, snd (append_row warm_manager ''sheet1'' [Text ''P1''] None))"
    by (simp add: append_row_def warm_manager_eq)
  have u: "update_sheet_data warm_manager ''sheet1'' sample_project_data None =
      (True, snd (update_sheet_data warm_manager ''sheet1'' sample_project_data None))"
    by (simp add: update_sheet_data_def warm_manager_eq)
  have fa: "fetches (snd (append_row warm_manager ''sheet1'' [Text ''P1''] None)) = 1"
    by (simp add: append_row_def warm_manager_eq invalidate_def)
  have fu: "fetches (snd (update_sheet_data warm_manager ''sheet1'' sample_project_data None)) = 1"
    by (simp add: update_sheet_data_def warm_manager_eq invalidate_def)
  have fr: "fresh warm_manager (''sheet1'', None) 1"
    by (simp add: fresh_def warm_manager_eq TTL_def)
  let ?ca = "snd (append_row warm_manager ''sheet1'' [Text ''P1''] None)"
  let ?cu = "snd (update_sheet_data warm_manager ''sheet1'' sample_project_data None)"
  have ta: "fst (append_row warm_manager ''sheet1'' [Text ''P1''] None) = True"
    by (simp add: append_row_def warm_manager_eq)
  have tu: "fst (update_sheet_data warm_manager ''sheet1'' sample_project_data None) = True"
    by (simp add: update_sheet_data_def warm_manager_eq)
  from write_invalidation [of warm_manager "''sheet1''" "[Text ''P1'']" None ?ca
      sample_project_data] a
  have ga: "fetches (snd (get_sheet_data ?ca ''sheet1'' None True 1)) = fetches ?ca + 1"
    by blast
  from write_invalidation [of warm_manager "''sheet1''" "[Text ''P1'']" None ?cu
      sample_project_data] u
  have gu: "fetches (snd (get_sheet_data ?cu ''sheet1'' None True 1)) = fetches ?cu + 1"
    by blast
  show ?thesis
    using ta tu fr ga gu fa fu by simp
qed

lemma auto_load_within_window:
  assumes "project_data s = Some df" and "project_last_auto_load s = Some last_load"
    and "now - last_load < 300 * 1000000"
  shows "auto_load_project_data s now loaded_at = s"
  using assms by (simp add: auto_load_project_data_def)

lemma auto_load_loads:
  assumes en: "case project_auto_load_enabled s of None \<Rightarrow> True | Some b \<Rightarrow> b"
    and due: "\<not> (case (project_data s, project_last_auto_load s) of
                 (Some df, Some last_load) \<Rightarrow> now - last_load < 300 * 1000000
               | _ \<Rightarrow> False)"
    and url: "project_sheet_url s \<noteq> []"
    and got: "get_sheet_data (manager s) (project_sheet_url s)
                (worksheet_or_None (project_worksheet_name s)) True now = (Inr df, m)"
    and nonempty: "\<not> df_empty df"
  shows "auto_load_project_data s now loaded_at =
     s\<lparr>project_data := Some df, project_last_auto_load := Some loaded_at, manager := m,
       calls := calls s @ [Get_sheet_data (project_sheet_url s)
                  (worksheet_or_None (project_worksheet_name s)) True],
       ui := ui s @ [Auto_loaded (length (rows df)), Pause 3]\<rparr>"
  using assms by (simp add: auto_load_project_data_def show_msgs_def called_def)

text \<open>
  Claim C9 (cache freshness). On the sheet cache as the spec describes it: when the first
  cached read of a key finds no fresh entry and the remote read succeeds, a second cached
  read of the key less than 300 seconds after the first, with no write in between, is
  served from the cache, so the two reads make exactly one remote fetch and return the
  same table. On the page: after a call of \<open>auto_load_project_data\<close> that loads a
  non-empty table (one call of \<open>get_sheet_data\<close>), a second call less than 300 seconds
  after that load returns the page as it is, without calling \<open>get_sheet_data\<close>.
\<close>

theorem cache_freshness:
  assumes miss: "\<not> fresh c (sid, ws) t1"
    and up: "remote c (sid, ws) = Some tbl"
    and within: "t2 - t1 < TTL"
    and en: "case project_auto_load_enabled s of None \<Rightarrow> True | Some b \<Rightarrow> b"
    and due: "\<not> (case (project_data s, project_last_auto_load s) of
                 (Some df, Some last_load) \<Rightarrow> now1 - last_load < 300 * 1000000
               | _ \<Rightarrow> False)"
    and url: "project_sheet_url s \<noteq> []"
    and got: "get_sheet_data (manager s) (project_sheet_url s)
                (worksheet_or_None (project_worksheet_name s)) True now1 = (Inr df, m)"
    and nonempty: "\<not> df_empty df"
    and soon: "now2 - loaded1 < 300 * 1000000"
  shows "fetches (snd (get_sheet_data (snd (get_sheet_data c sid ws True t1)) sid ws True t2)) =
           fetches c + 1 \<and>
         fst (get_sheet_data (snd (get_sheet_data c sid ws True t1)) sid ws True t2) =
           fst (get_sheet_data c sid ws True t1) \<and>
         calls (auto_load_project_data s now1 loaded1) =
           calls s @ [Get_sheet_data (project_sheet_url s)
                        (worksheet_or_None (project_worksheet_name s)) True] \<and>
         auto_load_project_data (auto_load_project_data s now1 loaded1) now2 loaded2 =
           auto_load_project_data s now1 loaded1"
proof -
  let ?c1 = "c\<lparr>entries := (entries c)((sid, ws) \<mapsto> (normalize_headers tbl, t1)),
               fetches := fetches c + 1\<rparr>"
  have first: "get_sheet_data c sid ws True t1 = (Inr (normalize_headers tbl), ?c1)"
    using get_sheet_data_miss [of True c sid ws t1 tbl] miss up by simp
  have second: "get_sheet_data ?c1 sid ws True t2 = (Inr (normalize_headers tbl), ?c1)"
    using within by (intro get_sheet_data_hit [where fetched_at = t1]) simp_all
  have loaded: "auto_load_project_data s now1 loaded1 =
     s\<lparr>project_data := Some df, project_last_auto_load := Some loaded1, manager := m,
       calls := calls s @ [Get_sheet_data (project_sheet_url s)
                  (worksheet_or_None (project_worksheet_name s)) True],
       ui := ui s @ [Auto_loaded (length (rows df)), Pause 3]\<rparr>"
    by (rule auto_load_loads [OF en due url got nonempty])
  have again: "auto_load_project_data (auto_load_project_data s now1 loaded1) now2 loaded2 =
      auto_load_project_data s now1 loaded1"
    unfolding loaded using soon
    by (intro auto_load_within_window [where df = df and last_load = loaded1]) simp_all
  show ?thesis
    using first second again by (simp add: loaded)
qed

text \<open>
  The sample manager read twice within the window: one fetch. The sample page loaded at
  time 2000 and visited again just under 300 seconds later: one call in all.
\<close>

theorem cache_freshness_witness:
  "fetches (snd (get_sheet_data (snd (get_sheet_data sample_manager ''sheet1'' None True 0))
      ''sheet1'' None True 299999999)) = 1 \<and>
   calls (auto_load_project_data (auto_load_project_data cold_page 1000 2000) 300001999 300002000) =
     [Get_sheet_data ''sheet1'' None True]"
proof -
  have miss: "\<not> fresh sample_manager (''sheet1'', None) 0"
    by (simp add: fresh_def sample_manager_def)
  have up: "remote sample_manager (''sheet1'', None) = Some sample_project_data"
    by (simp add: sample_manager_def)
  have within: "(299999999::int) - 0 < TTL"
    by (simp add: TTL_def)
  have en: "case project_auto_load_enabled cold_page of None \<Rightarrow> True | Some b \<Rightarrow> b"
    by (simp add: cold_page_def sample_page_def)
  have due: "\<not> (case (project_data cold_page, project_last_auto_load cold_page) of
                 (Some df, Some last_load) \<Rightarrow> 1000 - last_load < 300 * 1000000
               | _ \<Rightarrow> False)"
    by (simp add: cold_page_def)
  have url: "project_sheet_url cold_page \<noteq> []"
    by (simp add: cold_page_def sample_page_def)
  have got: "get_sheet_data (manager cold_page) (project_sheet_url cold_page)
      (worksheet_or_None (project_worksheet_name cold_page)) True 1000 =
      (Inr (normalize_headers sample_project_data),
       sample_manager\<lparr>entries := (entries sample_manager)
           ((''sheet1'', None) \<mapsto> (normalize_headers sample_project_data, 1000)),
         fetches := fetches sample_manager + 1\<rparr>)"
    using get_sheet_data_miss [of True sample_manager "''sheet1''" None 1000 sample_project_data]
    by (simp add: cold_page_def sample_page_def worksheet_or_None_def fresh_def
          sample_manager_def)
  have nonempty: "\<not> df_empty (normalize_headers sample_project_data)"
    by (simp add: df_empty_def normalize_headers_def sample_project_data_def)
  have soon: "(300001999::int) - 2000 < 300 * 1000000"
    by simp
  have f0: "fetches sample_manager = 0" and c0: "calls cold_page = []"
    by (simp_all add: sample_manager_def cold_page_def sample_page_def)
  show ?thesis
    using cache_freshness [OF miss up within en due url got nonempty soon, of 300002000] f0 c0
    by (simp add: cold_page_def sample_page_def worksheet_or_None_def)
qed

end
